theory Spec2Isabelle
  imports
    Main
    "HOL-Library.Sublist"
    "HOL-Library.Char_ord"
    "HOL-Library.List_Lexorder"
begin

section \<open>The meals table\<close>

text \<open>
  One row of the table \<open>meals\<close>, as \<open>knex.d.ts\<close> declares it. The column \<open>id\<close> is
  called \<open>meal_id\<close> here (\<open>id\<close> is the identity function of HOL). \<open>description\<close> is
  optional in the request body of a creation, so the column may hold no value.
\<close>

record meal =
  meal_id :: string
  user_id :: string
  name :: string
  description :: "string option"
  date_time :: string
  on_diet :: bool
  created_at :: string

text \<open>
  The state a request runs in: the rows of the table in the order they were inserted, the
  UUIDs that \<open>randomUUID()\<close> is going to return (a sequence and the number already drawn),
  and the timestamp the store writes into \<open>created_at\<close> for a row inserted now. The
  routes never write \<open>created_at\<close>; the default of the column comes from the schema of
  the table, which is not among the sources, so its value is a parameter here.
\<close>

record world =
  meals :: "meal list"
  uuid_pool :: "nat \<Rightarrow> string"
  uuid_drawn :: nat
  db_now :: string

definition randomUUID :: "world \<Rightarrow> string \<times> world" where
  "randomUUID w = (uuid_pool w (uuid_drawn w), w\<lparr>uuid_drawn := Suc (uuid_drawn w)\<rparr>)"

subsection \<open>The queries the routes build\<close>

text \<open>\<open>.where({ user_id: userId })\<close> and \<open>.where({ id, user_id: userId })\<close>.\<close>

definition where_user :: "string \<Rightarrow> meal list \<Rightarrow> meal list" where
  "where_user userId rows = filter (\<lambda>m. user_id m = userId) rows"

definition where_id_user :: "string \<Rightarrow> string \<Rightarrow> meal \<Rightarrow> bool" where
  "where_id_user mid userId m \<longleftrightarrow> meal_id m = mid \<and> user_id m = userId"

text \<open>
  \<open>.orderBy('date_time', 'desc')\<close>. The column is a string (\<open>date_time: string\<close>), so the
  store compares the stored texts, character by character. Rows with equal texts keep
  their table order: the rows are inserted from the last to the first, each in front of
  the first row whose text is not greater.
\<close>

fun insert_desc :: "meal \<Rightarrow> meal list \<Rightarrow> meal list" where
  "insert_desc m [] = [m]"
| "insert_desc m (x # xs) =
     (if date_time x \<le> date_time m then m # x # xs else x # insert_desc m xs)"

definition orderBy_date_time_desc :: "meal list \<Rightarrow> meal list" where
  "orderBy_date_time_desc rows = foldr insert_desc rows []"

text \<open>\<open>.first()\<close>: the first row of the result, or \<open>undefined\<close>.\<close>

definition first :: "meal list \<Rightarrow> meal option" where
  "first rows = (case rows of [] \<Rightarrow> None | m # _ \<Rightarrow> Some m)"

section \<open>Errors\<close>

text \<open>
  What a route can fail with: the guard's refusal, the \<open>ZodError\<close> of a schema's
  \<open>parse\<close> (with the paths of its issues; the empty path is the parsed value itself), and
  a plain \<open>Error\<close> with its message, thrown by a handler or by the query builder.
\<close>

datatype error = Unauthorized | ZodError "string list list" | Error string

definition NotFound :: error where
  "NotFound = Error ''Not Found''"

text \<open>
  Modelled from the spec: the middleware \<open>checkUserIdExists\<close> is not among the sources.
  The spec's Access Guard: a request with no identity token fails with \<open>Unauthorized\<close>
  and no handler runs; a token that is present is passed on as it is.
\<close>

definition checkUserIdExists :: "string option \<Rightarrow> error + string" where
  "checkUserIdExists cookie = (case cookie of None \<Rightarrow> Inl Unauthorized | Some userId \<Rightarrow> Inr userId)"

section \<open>Metrics\<close>

record metrics =
  recorded_meals :: nat
  on_diet_meals :: nat
  off_diet_meals :: nat
  best_sequence :: nat

text \<open>The two \<open>reduce\<close> calls of the \<open>/metrics\<close> route.\<close>

definition onDietMeals :: "meal list \<Rightarrow> nat" where
  "onDietMeals ms = fold (\<lambda>meal total. if on_diet meal then total + 1 else total) ms 0"

definition offDietMeals :: "meal list \<Rightarrow> nat" where
  "offDietMeals ms = fold (\<lambda>meal total. if \<not> on_diet meal then total + 1 else total) ms 0"

text \<open>
  The \<open>forEach\<close> of the route and its two variables: \<open>bestSequenceSoFar\<close> is the running
  counter, \<open>bestSequence\<close> the maximum it has reached.
\<close>

record streak =
  bestSequence :: nat
  bestSequenceSoFar :: nat

definition streak_step :: "meal \<Rightarrow> streak \<Rightarrow> streak" where
  "streak_step meal s =
     (let s1 = (if on_diet meal then s\<lparr>bestSequenceSoFar := bestSequenceSoFar s + 1\<rparr>
                else s\<lparr>bestSequenceSoFar := 0\<rparr>)
      in if bestSequenceSoFar s1 > bestSequence s1
         then s1\<lparr>bestSequence := bestSequenceSoFar s1\<rparr> else s1)"

definition compute_metrics :: "meal list \<Rightarrow> metrics" where
  "compute_metrics ms =
     \<lparr>recorded_meals = length ms,
      on_diet_meals = onDietMeals ms,
      off_diet_meals = offDietMeals ms,
      best_sequence =
        bestSequence (fold streak_step ms \<lparr>bestSequence = 0, bestSequenceSoFar = 0\<rparr>)\<rparr>"

text \<open>\<open>GET /\<close> and \<open>GET /metrics\<close>: both run the same query.\<close>

definition list_meals :: "world \<Rightarrow> string option \<Rightarrow> error + meal list" where
  "list_meals w cookie =
     (case checkUserIdExists cookie of
        Inl e \<Rightarrow> Inl e
      | Inr userId \<Rightarrow> Inr (orderBy_date_time_desc (where_user userId (meals w))))"

definition get_metrics :: "world \<Rightarrow> string option \<Rightarrow> error + metrics" where
  "get_metrics w cookie =
     (case checkUserIdExists cookie of
        Inl e \<Rightarrow> Inl e
      | Inr userId \<Rightarrow>
          Inr (compute_metrics (orderBy_date_time_desc (where_user userId (meals w)))))"

text \<open>
  The spec's words for \<open>best_sequence\<close>: the length of the longest run of consecutive
  entries that are all true, that is, the largest \<open>n\<close> such that \<open>n\<close> times \<open>True\<close> is a
  contiguous part of the list.
\<close>

definition longest_run :: "bool list \<Rightarrow> nat" where
  "longest_run bs = Max {n. sublist (replicate n True) bs}"

section \<open>Dates as the runtime prints them\<close>

text \<open>
  A valid \<open>Date\<close> is its time value, the milliseconds since the epoch. The time zone is
  the host's: \<open>LocalTZA\<close> is the offset (in milliseconds) of local time at a time value,
  \<open>tzName\<close> the suffix the implementation prints for the zone (empty, or a name in
  parentheses after a space).
\<close>

record runtime =
  LocalTZA :: "int \<Rightarrow> int"
  tzName :: "int \<Rightarrow> string"

definition msPerDay :: int where "msPerDay = 86400000"
definition msPerHour :: int where "msPerHour = 3600000"
definition msPerMinute :: int where "msPerMinute = 60000"
definition msPerSecond :: int where "msPerSecond = 1000"

definition Day :: "int \<Rightarrow> int" where
  "Day t = t div msPerDay"

definition DaysInYear :: "int \<Rightarrow> int" where
  "DaysInYear y =
     (if y mod 4 \<noteq> 0 then 365 else if y mod 100 \<noteq> 0 then 366
      else if y mod 400 \<noteq> 0 then 365 else 366)"

definition DayFromYear :: "int \<Rightarrow> int" where
  "DayFromYear y =
     365 * (y - 1970) + (y - 1969) div 4 - (y - 1901) div 100 + (y - 1601) div 400"

text \<open>
  \<open>YearFromTime(t)\<close> is the largest year whose first day is not after \<open>Day(t)\<close>. A year
  has 365 or 366 days, so it lies between \<open>1970 + Day(t) div 366\<close> and
  \<open>1970 + Day(t) div 365\<close> (in either order); the search walks down from the larger.
\<close>

primrec year_down :: "int \<Rightarrow> int \<Rightarrow> nat \<Rightarrow> int" where
  "year_down d y 0 = y"
| "year_down d y (Suc k) = (if DayFromYear y \<le> d then y else year_down d (y - 1) k)"

definition YearFromTime :: "int \<Rightarrow> int" where
  "YearFromTime t =
     (let d = Day t;
          hi = 1970 + max (d div 365) (d div 366);
          lo = 1970 + min (d div 365) (d div 366)
      in year_down d hi (nat (hi - lo)))"

definition InLeapYear :: "int \<Rightarrow> int" where
  "InLeapYear t = (if DaysInYear (YearFromTime t) = 366 then 1 else 0)"

definition DayWithinYear :: "int \<Rightarrow> int" where
  "DayWithinYear t = Day t - DayFromYear (YearFromTime t)"

definition MonthFromTime :: "int \<Rightarrow> nat" where
  "MonthFromTime t =
     (let d = DayWithinYear t; leap = InLeapYear t in
      if d < 31 then 0 else if d < 59 + leap then 1 else if d < 90 + leap then 2
      else if d < 120 + leap then 3 else if d < 151 + leap then 4
      else if d < 181 + leap then 5 else if d < 212 + leap then 6
      else if d < 243 + leap then 7 else if d < 273 + leap then 8
      else if d < 304 + leap then 9 else if d < 334 + leap then 10 else 11)"

definition DateFromTime :: "int \<Rightarrow> int" where
  "DateFromTime t =
     (let d = DayWithinYear t; leap = InLeapYear t; m = MonthFromTime t in
      if m = 0 then d + 1 else if m = 1 then d - 30 else if m = 2 then d - 58 - leap
      else if m = 3 then d - 89 - leap else if m = 4 then d - 119 - leap
      else if m = 5 then d - 150 - leap else if m = 6 then d - 180 - leap
      else if m = 7 then d - 211 - leap else if m = 8 then d - 242 - leap
      else if m = 9 then d - 272 - leap else if m = 10 then d - 303 - leap
      else d - 333 - leap)"

definition WeekDay :: "int \<Rightarrow> nat" where
  "WeekDay t = nat ((Day t + 4) mod 7)"

definition HourFromTime :: "int \<Rightarrow> int" where
  "HourFromTime t = (t div msPerHour) mod 24"

definition MinFromTime :: "int \<Rightarrow> int" where
  "MinFromTime t = (t div msPerMinute) mod 60"

definition SecFromTime :: "int \<Rightarrow> int" where
  "SecFromTime t = (t div msPerSecond) mod 60"

text \<open>Decimal digits, and \<open>ToZeroPaddedDecimalString(n, minLength)\<close>.\<close>

fun decimal :: "nat \<Rightarrow> nat \<Rightarrow> string" where
  "decimal 0 n = []"
| "decimal (Suc k) n =
     (if n < 10 then [''0123456789'' ! n]
      else decimal k (n div 10) @ [''0123456789'' ! (n mod 10)])"

definition ToString_nat :: "nat \<Rightarrow> string" where
  "ToString_nat n = decimal (Suc n) n"

definition ToZeroPaddedDecimalString :: "int \<Rightarrow> nat \<Rightarrow> string" where
  "ToZeroPaddedDecimalString n minLength =
     (let S = ToString_nat (nat n) in replicate (minLength - length S) CHR ''0'' @ S)"

definition weekday_names :: "string list" where
  "weekday_names = [''Sun'', ''Mon'', ''Tue'', ''Wed'', ''Thu'', ''Fri'', ''Sat'']"

definition month_names :: "string list" where
  "month_names = [''Jan'', ''Feb'', ''Mar'', ''Apr'', ''May'', ''Jun'',
                  ''Jul'', ''Aug'', ''Sep'', ''Oct'', ''Nov'', ''Dec'']"

definition DateString :: "int \<Rightarrow> string" where
  "DateString tv =
     (let yv = YearFromTime tv in
      weekday_names ! WeekDay tv @ '' '' @ month_names ! MonthFromTime tv @ '' '' @
      ToZeroPaddedDecimalString (DateFromTime tv) 2 @ '' '' @
      (if 0 \<le> yv then [] else ''-'') @ ToZeroPaddedDecimalString \<bar>yv\<bar> 4)"

definition TimeString :: "int \<Rightarrow> string" where
  "TimeString tv =
     ToZeroPaddedDecimalString (HourFromTime tv) 2 @ '':'' @
     ToZeroPaddedDecimalString (MinFromTime tv) 2 @ '':'' @
     ToZeroPaddedDecimalString (SecFromTime tv) 2 @ '' GMT''"

definition TimeZoneString :: "runtime \<Rightarrow> int \<Rightarrow> string" where
  "TimeZoneString env tv =
     (let offset = LocalTZA env tv; absOffset = \<bar>offset\<bar> in
      (if 0 \<le> offset then ''+'' else ''-'') @
      ToZeroPaddedDecimalString (HourFromTime absOffset) 2 @
      ToZeroPaddedDecimalString (MinFromTime absOffset) 2 @ tzName env tv)"

text \<open>\<open>String(dateTime)\<close> for a valid date: \<open>Date.prototype.toString\<close>.\<close>

definition ToDateString :: "runtime \<Rightarrow> int \<Rightarrow> string" where
  "ToDateString env tv =
     (let t = tv + LocalTZA env tv in
      DateString t @ '' '' @ TimeString t @ TimeZoneString env tv)"

text \<open>A host on UTC, printing the zone the way V8 does.\<close>

definition utc :: runtime where
  "utc = \<lparr>LocalTZA = (\<lambda>_. 0), tzName = (\<lambda>_. '' (Coordinated Universal Time)'')\<rparr>"

section \<open>Request values and the schemas\<close>

text \<open>
  A value of the parsed JSON body, as far as the schemas tell values apart: absent
  (\<open>undefined\<close>), a string, a boolean, or anything else (\<open>null\<close>, a number, an array, an
  object).
\<close>

datatype jsval = JUndefined | JString string | JBoolean bool | JOther

text \<open>
  \<open>dateTime\<close> is only ever read through \<open>z.coerce.date()\<close>, which builds
  \<open>new Date(value)\<close>. The field is kept as that date: \<open>DateUndefined\<close> when the key is
  absent, otherwise the time value of \<open>new Date(value)\<close>, \<open>None\<close> for an invalid date.
\<close>

datatype date_in = DateUndefined | NewDate "int option"

record meal_body =
  name_in :: jsval
  description_in :: jsval
  dateTime_in :: date_in
  onDiet_in :: jsval

text \<open>
  One schema per kind of field; \<open>None\<close> is an issue. \<open>z.string()\<close> accepts every
  string, the empty one too. \<open>.optional()\<close> accepts \<open>undefined\<close> and hands everything
  else to the schema it wraps. \<open>new Date(undefined)\<close> is an invalid date.
\<close>

definition z_string :: "jsval \<Rightarrow> string option" where
  "z_string v = (case v of JString s \<Rightarrow> Some s | _ \<Rightarrow> None)"

definition z_boolean :: "jsval \<Rightarrow> bool option" where
  "z_boolean v = (case v of JBoolean b \<Rightarrow> Some b | _ \<Rightarrow> None)"

definition z_coerce_date :: "date_in \<Rightarrow> int option" where
  "z_coerce_date d = (case d of DateUndefined \<Rightarrow> None | NewDate tv \<Rightarrow> tv)"

definition z_string_optional :: "jsval \<Rightarrow> string option option" where
  "z_string_optional v = (case v of JUndefined \<Rightarrow> Some None | _ \<Rightarrow> map_option Some (z_string v))"

definition z_boolean_optional :: "jsval \<Rightarrow> bool option option" where
  "z_boolean_optional v = (case v of JUndefined \<Rightarrow> Some None | _ \<Rightarrow> map_option Some (z_boolean v))"

definition z_coerce_date_optional :: "date_in \<Rightarrow> int option option" where
  "z_coerce_date_optional d =
     (case d of DateUndefined \<Rightarrow> Some None | _ \<Rightarrow> map_option Some (z_coerce_date d))"

definition issue :: "string \<Rightarrow> 'a option \<Rightarrow> string list list" where
  "issue key r = (case r of None \<Rightarrow> [[key]] | Some _ \<Rightarrow> [])"

text \<open>
  \<open>createMealBodySchema.parse(request.body)\<close>. A body that is not an object is one
  issue at the empty path; otherwise every key is parsed and the issues are collected.
\<close>

definition createMealBodySchema_parse ::
  "meal_body option \<Rightarrow> error + string \<times> string option \<times> int \<times> bool" where
  "createMealBodySchema_parse body =
     (case body of
        None \<Rightarrow> Inl (ZodError [[]])
      | Some b \<Rightarrow>
          (case (z_string (name_in b), z_string_optional (description_in b),
                 z_coerce_date (dateTime_in b), z_boolean (onDiet_in b)) of
             (Some name', Some description', Some dateTime, Some onDiet) \<Rightarrow>
               Inr (name', description', dateTime, onDiet)
           | (rn, rd, rt, rb) \<Rightarrow>
               Inl (ZodError (issue ''name'' rn @ issue ''description'' rd @
                              issue ''dateTime'' rt @ issue ''onDiet'' rb))))"

text \<open>\<open>updateMealBodySchema.parse(request.body)\<close>: every key is optional.\<close>

definition updateMealBodySchema_parse ::
  "meal_body option \<Rightarrow>
     error + string option \<times> string option \<times> int option \<times> bool option" where
  "updateMealBodySchema_parse body =
     (case body of
        None \<Rightarrow> Inl (ZodError [[]])
      | Some b \<Rightarrow>
          (case (z_string_optional (name_in b), z_string_optional (description_in b),
                 z_coerce_date_optional (dateTime_in b), z_boolean_optional (onDiet_in b)) of
             (Some name', Some description', Some dateTime, Some onDiet) \<Rightarrow>
               Inr (name', description', dateTime, onDiet)
           | (rn, rd, rt, rb) \<Rightarrow>
               Inl (ZodError (issue ''name'' rn @ issue ''description'' rd @
                              issue ''dateTime'' rt @ issue ''onDiet'' rb))))"

text \<open>
  \<open>z.string().uuid()\<close> on the route parameter: five groups of 8, 4, 4, 4 and 12
  hexadecimal digits, with hyphens between them.
\<close>

definition is_hex :: "char \<Rightarrow> bool" where
  "is_hex c \<longleftrightarrow> c \<in> set ''0123456789abcdefABCDEF''"

fun hex_digits :: "nat \<Rightarrow> string \<Rightarrow> string option" where
  "hex_digits 0 s = Some s"
| "hex_digits (Suc n) [] = None"
| "hex_digits (Suc n) (c # s) = (if is_hex c then hex_digits n s else None)"

fun hyphen :: "string \<Rightarrow> string option" where
  "hyphen [] = None"
| "hyphen (c # s) = (if c = CHR ''-'' then Some s else None)"

definition is_uuid :: "string \<Rightarrow> bool" where
  "is_uuid s \<longleftrightarrow>
     Option.bind (Option.bind (Option.bind (Option.bind (Option.bind (Option.bind
       (Option.bind (Option.bind (hex_digits 8 s) hyphen) (hex_digits 4)) hyphen)
       (hex_digits 4)) hyphen) (hex_digits 4)) hyphen) (hex_digits 12) = Some []"

definition getMealParamsSchema_parse :: "string \<Rightarrow> error + string" where
  "getMealParamsSchema_parse p = (if is_uuid p then Inr p else Inl (ZodError [[''id'']]))"

section \<open>The routes that read one meal or write\<close>

text \<open>\<open>GET /:id\<close>: the reply holds the meal, or nothing when no row matches.\<close>

definition get_meal :: "world \<Rightarrow> string option \<Rightarrow> string \<Rightarrow> error + meal option" where
  "get_meal w cookie p =
     (case checkUserIdExists cookie of
        Inl e \<Rightarrow> Inl e
      | Inr userId \<Rightarrow>
          (case getMealParamsSchema_parse p of
             Inl e \<Rightarrow> Inl e
           | Inr mid \<Rightarrow> Inr (first (filter (where_id_user mid userId) (meals w)))))"

text \<open>
  The cookie a reply sets. \<open>maxAge\<close> is the number the route passes; the cookie plugin
  writes it into the \<open>Max-Age\<close> attribute, which counts seconds.
\<close>

record set_cookie =
  cookie_name :: string
  cookie_value :: string
  path :: string
  maxAge :: nat

definition seconds_per_day :: nat where
  "seconds_per_day = 60 * 60 * 24"

definition valid_for_days :: "set_cookie \<Rightarrow> nat" where
  "valid_for_days c = maxAge c div seconds_per_day"

text \<open>
  \<open>POST /\<close>. The result is the cookie the reply sets, if any, and the state after the
  request. \<open>!userId\<close> holds for a missing cookie and for an empty one.
\<close>

definition create_meal ::
  "runtime \<Rightarrow> world \<Rightarrow> string option \<Rightarrow> meal_body option \<Rightarrow>
     (error + set_cookie option) \<times> world" where
  "create_meal env w cookie body =
     (case createMealBodySchema_parse body of
        Inl e \<Rightarrow> (Inl e, w)
      | Inr (name', description', dateTime, onDiet) \<Rightarrow>
          (let (userId, reply_cookie, w1) =
                 (if cookie = None \<or> cookie = Some []
                  then (let (u, w') = randomUUID w
                        in (u, Some \<lparr>cookie_name = ''userId'', cookie_value = u, path = ''/'',
                                     maxAge = 1000 * 60 * 60 * 24 * 7\<rparr>, w'))
                  else (case cookie of Some u \<Rightarrow> (u, None, w) | None \<Rightarrow> ([], None, w)));
               (new_id, w2) = randomUUID w1
           in (Inr reply_cookie,
               w2\<lparr>meals := meals w2 @
                    [\<lparr>meal_id = new_id, user_id = userId, name = name',
                      description = description',
                      date_time = ToDateString env dateTime,
                      on_diet = onDiet, created_at = db_now w2\<rparr>]\<rparr>)))"

text \<open>
  \<open>.update({ name, description, date_time, on_diet })\<close>: the query builder leaves out
  the keys whose value is \<open>undefined\<close>, and throws when none is left.
\<close>

record update_data =
  name_upd :: "string option"
  description_upd :: "string option"
  date_time_upd :: "string option"
  on_diet_upd :: "bool option"

definition set_columns :: "update_data \<Rightarrow> meal \<Rightarrow> meal" where
  "set_columns d m =
     m\<lparr>name := (case name_upd d of None \<Rightarrow> name m | Some v \<Rightarrow> v),
       description := (case description_upd d of None \<Rightarrow> description m | Some v \<Rightarrow> Some v),
       date_time := (case date_time_upd d of None \<Rightarrow> date_time m | Some v \<Rightarrow> v),
       on_diet := (case on_diet_upd d of None \<Rightarrow> on_diet m | Some v \<Rightarrow> v)\<rparr>"

definition knex_update :: "(meal \<Rightarrow> bool) \<Rightarrow> update_data \<Rightarrow> world \<Rightarrow> (error + unit) \<times> world" where
  "knex_update cond d w =
     (if name_upd d = None \<and> description_upd d = None \<and> date_time_upd d = None \<and>
         on_diet_upd d = None
      then (Inl (Error ''Empty .update() call detected!''), w)
      else (Inr (), w\<lparr>meals := map (\<lambda>m. if cond m then set_columns d m else m) (meals w)\<rparr>))"

definition knex_del :: "(meal \<Rightarrow> bool) \<Rightarrow> world \<Rightarrow> world" where
  "knex_del cond w = w\<lparr>meals := filter (\<lambda>m. \<not> cond m) (meals w)\<rparr>"

text \<open>\<open>PUT /:id\<close>.\<close>

definition update_meal ::
  "runtime \<Rightarrow> world \<Rightarrow> string option \<Rightarrow> string \<Rightarrow> meal_body option \<Rightarrow>
     (error + unit) \<times> world" where
  "update_meal env w cookie p body =
     (case checkUserIdExists cookie of
        Inl e \<Rightarrow> (Inl e, w)
      | Inr userId \<Rightarrow>
          (case getMealParamsSchema_parse p of
             Inl e \<Rightarrow> (Inl e, w)
           | Inr mid \<Rightarrow>
               (case first (filter (where_id_user mid userId) (meals w)) of
                  None \<Rightarrow> (Inl NotFound, w)
                | Some meal \<Rightarrow>
                    (case updateMealBodySchema_parse body of
                       Inl e \<Rightarrow> (Inl e, w)
                     | Inr (name', description', dateTime, onDiet) \<Rightarrow>
                         knex_update (where_id_user mid userId)
                           \<lparr>name_upd = name', description_upd = description',
                            date_time_upd = map_option (ToDateString env) dateTime,
                            on_diet_upd = onDiet\<rparr> w))))"

text \<open>\<open>DELETE /:id\<close>.\<close>

definition delete_meal ::
  "world \<Rightarrow> string option \<Rightarrow> string \<Rightarrow> (error + unit) \<times> world" where
  "delete_meal w cookie p =
     (case checkUserIdExists cookie of
        Inl e \<Rightarrow> (Inl e, w)
      | Inr userId \<Rightarrow>
          (case getMealParamsSchema_parse p of
             Inl e \<Rightarrow> (Inl e, w)
           | Inr mid \<Rightarrow>
               (case first (filter (where_id_user mid userId) (meals w)) of
                  None \<Rightarrow> (Inl NotFound, w)
                | Some meal \<Rightarrow> (Inr (), knex_del (where_id_user mid userId) w))))"

section \<open>A client and its requests\<close>

text \<open>
  A client sends requests one after the other and keeps the cookie a reply sets: the
  state of a session is the state of the server and the client's cookie.
\<close>

datatype op =
    Get_meals
  | Get_meal string
  | Get_metrics
  | Post_meal "meal_body option"
  | Put_meal string "meal_body option"
  | Delete_meal string

definition perform :: "runtime \<Rightarrow> op \<Rightarrow> world \<times> string option \<Rightarrow> world \<times> string option" where
  "perform env r st =
     (case st of (w, jar) \<Rightarrow>
       (case r of
          Post_meal body \<Rightarrow>
            (case create_meal env w jar body of
               (Inr (Some c), w') \<Rightarrow> (w', Some (cookie_value c))
             | (_, w') \<Rightarrow> (w', jar))
        | Put_meal p body \<Rightarrow> (snd (update_meal env w jar p body), jar)
        | Delete_meal p \<Rightarrow> (snd (delete_meal w jar p), jar)
        | _ \<Rightarrow> (w, jar)))"

definition session ::
  "runtime \<Rightarrow> op list \<Rightarrow> world \<times> string option \<Rightarrow> world \<times> string option" where
  "session env rs st = fold (perform env) rs st"

section \<open>Auxiliary notions and example data\<close>

text \<open>The number of \<open>True\<close> at the end of a list: what the running counter holds.\<close>

definition trailing_run :: "bool list \<Rightarrow> nat" where
  "trailing_run bs = length (takeWhile (\<lambda>b. b) (rev bs))"

text \<open>Two identity tokens, a source of UUIDs and a server that has stored nothing yet.\<close>

definition alice :: string where
  "alice = ''11111111-1111-4111-8111-111111111111''"

definition bob :: string where
  "bob = ''99999999-9999-4999-8999-999999999999''"

definition example_uuids :: "nat \<Rightarrow> string" where
  "example_uuids n =
     (if n = 0 then ''11111111-1111-4111-8111-111111111111''
      else if n = 1 then ''22222222-2222-4222-8222-222222222222''
      else if n = 2 then ''33333333-3333-4333-8333-333333333333''
      else ''44444444-4444-4444-8444-444444444444'')"

definition fresh_world :: world where
  "fresh_world =
     \<lparr>meals = [], uuid_pool = example_uuids, uuid_drawn = 0, db_now = ''2024-01-05 12:00:00''\<rparr>"

text \<open>A valid body for a meal at time value \<open>t\<close>, and a body with no key at all.\<close>

definition lunch :: "int \<Rightarrow> bool \<Rightarrow> meal_body" where
  "lunch t d =
     \<lparr>name_in = JString ''Lunch'', description_in = JUndefined,
      dateTime_in = NewDate (Some t), onDiet_in = JBoolean d\<rparr>"

definition no_keys :: meal_body where
  "no_keys =
     \<lparr>name_in = JUndefined, description_in = JUndefined,
      dateTime_in = DateUndefined, onDiet_in = JUndefined\<rparr>"

text \<open>
  Alice records two meals: first one on Wednesday 3 January 2024 (time value
  1704283200000), then one on Thursday 4 January 2024 (1704369600000), both at noon
  UTC. The first request carries no cookie and is answered with one.
\<close>

definition two_lunches :: world where
  "two_lunches =
     snd (create_meal utc
            (snd (create_meal utc fresh_world None (Some (lunch 1704283200000 True))))
            (Some alice) (Some (lunch 1704369600000 True)))"

text \<open>A row of Bob's, and a store that holds it.\<close>

definition bobs_meal :: meal where
  "bobs_meal =
     \<lparr>meal_id = ''77777777-7777-4777-8777-777777777777'', user_id = bob,
      name = ''Dinner'', description = Some ''Soup'',
      date_time = ''Fri Jan 05 2024 19:00:00 GMT+0000 (Coordinated Universal Time)'',
      on_diet = True, created_at = ''2024-01-05 19:30:00''\<rparr>"

definition bobs_world :: world where
  "bobs_world = fresh_world\<lparr>meals := [bobs_meal]\<rparr>"

text \<open>Four meals in the order on, on, off, on, and a session of one client.\<close>

definition four_meals :: "meal list" where
  "four_meals = [bobs_meal, bobs_meal, bobs_meal\<lparr>on_diet := False\<rparr>, bobs_meal]"

definition busy_session :: "op list" where
  "busy_session =
     [Post_meal (Some (lunch 0 True)),
      Delete_meal ''77777777-7777-4777-8777-777777777777'',
      Put_meal ''77777777-7777-4777-8777-777777777777''
        (Some (no_keys\<lparr>onDiet_in := JBoolean False\<rparr>)),
      Put_meal ''22222222-2222-4222-8222-222222222222''
        (Some (no_keys\<lparr>onDiet_in := JBoolean False\<rparr>)),
      Post_meal (Some (lunch 86400000 False)),
      Delete_meal ''22222222-2222-4222-8222-222222222222'']"

section \<open>Facts about the model\<close>

subsection \<open>The calendar\<close>

text \<open>
  The search for the year is right: \<open>YearFromTime(t)\<close> is the largest year that
  starts on or before the day of \<open>t\<close>.
\<close>

lemma div_step:
  fixes z n :: int
  assumes "0 < n"
  shows "(z + 1) div n = z div n + (if (z + 1) mod n = 0 then 1 else 0)"
proof (cases "z mod n = n - 1")
  case True
  have "z + 1 = n * (z div n + 1) + 0"
    using mult_div_mod_eq [of n z] True by (simp add: algebra_simps)
  then have "(z + 1) div n = z div n + 1" "(z + 1) mod n = 0"
    using assms by (metis add.right_neutral nonzero_mult_div_cancel_left less_irrefl, metis add.right_neutral mod_mult_self1_is_0)
  then show ?thesis by simp
next
  case False
  have r: "0 \<le> z mod n" "z mod n < n" using assms by simp_all
  with False have r1: "0 \<le> z mod n + 1" "z mod n + 1 < n" by simp_all
  have e: "z + 1 = n * (z div n) + (z mod n + 1)"
    using mult_div_mod_eq [of n z] by simp
  have "(z + 1) div n = z div n"
    using int_div_pos_eq [OF e r1] .
  moreover have "(z + 1) mod n = z mod n + 1"
    using int_mod_pos_eq [OF e r1] .
  ultimately show ?thesis using r by simp
qed

lemma year_steps:
  fixes y :: int
  shows "(y + 1 - 1969) div 4 = (y - 1969) div 4 + (if y mod 4 = 0 then 1 else 0)"
    and "(y + 1 - 1901) div 100 = (y - 1901) div 100 + (if y mod 100 = 0 then 1 else 0)"
    and "(y + 1 - 1601) div 400 = (y - 1601) div 400 + (if y mod 400 = 0 then 1 else 0)"
proof -
  have a: "(y - 1969 + 1) mod 4 = y mod 4"
    using mod_mult_self2 [of y 4 "-492"] by simp
  have b: "(y - 1901 + 1) mod 100 = y mod 100"
    using mod_mult_self2 [of y 100 "-19"] by simp
  have c: "(y - 1601 + 1) mod 400 = y mod 400"
    using mod_mult_self2 [of y 400 "-4"] by simp
  show "(y + 1 - 1969) div 4 = (y - 1969) div 4 + (if y mod 4 = 0 then 1 else 0)"
    using div_step [of 4 "y - 1969"] a by (simp add: algebra_simps)
  show "(y + 1 - 1901) div 100 = (y - 1901) div 100 + (if y mod 100 = 0 then 1 else 0)"
    using div_step [of 100 "y - 1901"] b by (simp add: algebra_simps)
  show "(y + 1 - 1601) div 400 = (y - 1601) div 400 + (if y mod 400 = 0 then 1 else 0)"
    using div_step [of 400 "y - 1601"] c by (simp add: algebra_simps)
qed

lemma leap_mods:
  fixes y :: int
  shows "y mod 400 = 0 \<Longrightarrow> y mod 100 = 0" and "y mod 100 = 0 \<Longrightarrow> y mod 4 = 0"
proof -
  show "y mod 400 = 0 \<Longrightarrow> y mod 100 = 0"
    using mod_mod_cancel [of 100 400 y] by simp
  show "y mod 100 = 0 \<Longrightarrow> y mod 4 = 0"
    using mod_mod_cancel [of 4 100 y] by simp
qed

lemma DayFromYear_Suc: "DayFromYear (y + 1) = DayFromYear y + DaysInYear y"
  unfolding DayFromYear_def DaysInYear_def
  using leap_mods [of y] by (simp only: year_steps) (auto simp: algebra_simps)

lemma DaysInYear_range: "365 \<le> DaysInYear y \<and> DaysInYear y \<le> 366"
  by (simp add: DaysInYear_def)

lemma DayFromYear_1970: "DayFromYear 1970 = 0"
  by (simp add: DayFromYear_def)

lemma DayFromYear_after:
  "0 \<le> k \<Longrightarrow> 365 * k \<le> DayFromYear (1970 + k) \<and> DayFromYear (1970 + k) \<le> 366 * k"
proof (induction k rule: int_ge_induct)
  case base
  then show ?case by (simp add: DayFromYear_1970)
next
  case (step i)
  have "DayFromYear (1970 + (i + 1)) = DayFromYear (1970 + i) + DaysInYear (1970 + i)"
    using DayFromYear_Suc [of "1970 + i"] by (simp add: add.assoc)
  with step DaysInYear_range [of "1970 + i"] show ?case by auto
qed

lemma DayFromYear_before:
  "k \<le> 0 \<Longrightarrow> 366 * k \<le> DayFromYear (1970 + k) \<and> DayFromYear (1970 + k) \<le> 365 * k"
proof (induction k rule: int_le_induct)
  case base
  then show ?case by (simp add: DayFromYear_1970)
next
  case (step i)
  have "DayFromYear (1970 + i) = DayFromYear (1970 + (i - 1)) + DaysInYear (1970 + (i - 1))"
    using DayFromYear_Suc [of "1970 + (i - 1)"] by simp
  with step DaysInYear_range [of "1970 + (i - 1)"] show ?case by auto
qed

lemma DayFromYear_mono: "y \<le> z \<Longrightarrow> DayFromYear y \<le> DayFromYear z"
proof (induction z rule: int_ge_induct)
  case base
  then show ?case by simp
next
  case (step i)
  with DayFromYear_Suc [of i] DaysInYear_range [of i] show ?case by auto
qed

lemma year_down_finds:
  assumes "DayFromYear (y - int n) \<le> d" and "d < DayFromYear (y + 1)"
  shows "DayFromYear (year_down d y n) \<le> d \<and> d < DayFromYear (year_down d y n + 1)"
  using assms
proof (induction n arbitrary: y)
  case 0
  then show ?case by simp
next
  case (Suc n)
  show ?case
  proof (cases "DayFromYear y \<le> d")
    case True
    with Suc.prems show ?thesis by simp
  next
    case False
    have "DayFromYear (y - 1 - int n) \<le> d"
      using Suc.prems(1) by (simp add: algebra_simps)
    moreover have "d < DayFromYear (y - 1 + 1)"
      using False by simp
    ultimately show ?thesis
      using Suc.IH [of "y - 1"] False by simp
  qed
qed

theorem YearFromTime_correct:
  "DayFromYear (YearFromTime t) \<le> Day t \<and> Day t < DayFromYear (YearFromTime t + 1)"
proof -
  define d where "d = Day t"
  define hi where "hi = 1970 + max (d div 365) (d div 366)"
  define lo where "lo = 1970 + min (d div 365) (d div 366)"
  have d365: "365 * (d div 365) \<le> d" "d < 365 * (d div 365) + 365"
    using mult_div_mod_eq [of 365 d] pos_mod_bound [of 365 d] pos_mod_sign [of 365 d]
    by linarith+
  have d366: "366 * (d div 366) \<le> d" "d < 366 * (d div 366) + 366"
    using mult_div_mod_eq [of 366 d] pos_mod_bound [of 366 d] pos_mod_sign [of 366 d]
    by linarith+
  have order: "if 0 \<le> d then d div 366 \<le> d div 365 else d div 365 \<le> d div 366"
    by (auto intro: zdiv_mono2 zdiv_mono2_neg)
  have lohi: "lo \<le> hi" by (simp add: lo_def hi_def)
  have low: "DayFromYear lo \<le> d"
  proof (cases "0 \<le> d")
    case True
    then have "lo = 1970 + d div 366" using order by (simp add: lo_def)
    moreover have "0 \<le> d div 366" using True by simp
    ultimately show ?thesis
      using DayFromYear_after [of "d div 366"] d366 by auto
  next
    case False
    then have "lo = 1970 + d div 365" using order by (simp add: lo_def)
    moreover have "d div 365 \<le> 0" using False by simp
    ultimately show ?thesis
      using DayFromYear_before [of "d div 365"] d365 by auto
  qed
  have high: "d < DayFromYear (hi + 1)"
  proof (cases "0 \<le> d")
    case True
    then have "hi + 1 = 1970 + (d div 365 + 1)" using order by (simp add: hi_def)
    moreover have "0 \<le> d div 365 + 1" using True by simp
    ultimately show ?thesis
      using DayFromYear_after [of "d div 365 + 1"] d365 by auto
  next
    case False
    then have "hi + 1 = 1970 + (d div 366 + 1)" using order by (simp add: hi_def)
    moreover have "d div 366 + 1 \<le> 0" using False d366 by simp
    ultimately show ?thesis
      using DayFromYear_before [of "d div 366 + 1"] d366 by auto
  qed
  have "hi - int (nat (hi - lo)) = lo" using lohi by simp
  with low have "DayFromYear (hi - int (nat (hi - lo))) \<le> d" by simp
  from year_down_finds [OF this high]
  show ?thesis
    by (simp add: YearFromTime_def Let_def d_def hi_def lo_def)
qed

lemma YearFromTime_largest:
  "DayFromYear y \<le> Day t \<longleftrightarrow> y \<le> YearFromTime t"
proof
  assume "DayFromYear y \<le> Day t"
  show "y \<le> YearFromTime t"
  proof (rule ccontr)
    assume "\<not> y \<le> YearFromTime t"
    then have "YearFromTime t + 1 \<le> y" by simp
    from DayFromYear_mono [OF this] YearFromTime_correct [of t] \<open>DayFromYear y \<le> Day t\<close>
    show False by linarith
  qed
next
  assume "y \<le> YearFromTime t"
  from DayFromYear_mono [OF this] YearFromTime_correct [of t]
  show "DayFromYear y \<le> Day t" by linarith
qed

text \<open>The fuel of \<open>decimal\<close> is never used up: more of it gives the same digits.\<close>

lemma decimal_fuel: "n < k \<Longrightarrow> n < j \<Longrightarrow> decimal k n = decimal j n"
proof (induction k arbitrary: n j)
  case 0
  then show ?case by simp
next
  case (Suc k)
  then obtain j' where j: "j = Suc j'" by (cases j) auto
  show ?case
  proof (cases "n < 10")
    case True
    then show ?thesis by (simp add: j)
  next
    case False
    then have "n div 10 < k" "n div 10 < j'"
      using Suc.prems j by simp_all
    then have "decimal k (n div 10) = decimal j' (n div 10)"
      by (rule Suc.IH)
    then show ?thesis using False by (simp add: j)
  qed
qed

text \<open>
  The texts of the dates used in the examples.
\<close>

lemma epoch_text:
  "ToDateString utc 0 = ''Thu Jan 01 1970 00:00:00 GMT+0000 (Coordinated Universal Time)''"
  by code_simp

lemma next_day_text:
  "ToDateString utc 86400000 = ''Fri Jan 02 1970 00:00:00 GMT+0000 (Coordinated Universal Time)''"
  by code_simp

lemma wednesday_text:
  "ToDateString utc 1704283200000 =
     ''Wed Jan 03 2024 12:00:00 GMT+0000 (Coordinated Universal Time)''"
  by code_simp

lemma thursday_text:
  "ToDateString utc 1704369600000 =
     ''Thu Jan 04 2024 12:00:00 GMT+0000 (Coordinated Universal Time)''"
  by code_simp

subsection \<open>Runs of meals on the diet\<close>

lemma trailing_run_snoc:
  "trailing_run (bs @ [b]) = (if b then trailing_run bs + 1 else 0)"
  by (simp add: trailing_run_def)

lemma suffix_replicate_True:
  "suffix (replicate n True) bs \<longleftrightarrow> n \<le> trailing_run bs"
proof (induction bs arbitrary: n rule: rev_induct)
  case Nil
  then show ?case by (simp add: trailing_run_def)
next
  case (snoc b bs)
  show ?case
  proof (cases n)
    case 0
    then show ?thesis by simp
  next
    case (Suc k)
    have "replicate (Suc k) True = replicate k True @ [True]"
      by (simp add: replicate_append_same)
    then show ?thesis
      using snoc[of k] Suc by (auto simp: trailing_run_snoc)
  qed
qed

lemma runs_finite: "finite {n. sublist (replicate n True) bs}"
proof (rule finite_subset)
  show "{n. sublist (replicate n True) bs} \<subseteq> {..length bs}"
    using sublist_length_le by fastforce
qed simp

lemma runs_nonempty: "\<exists>n. sublist (replicate n True) bs"
  by (rule exI[of _ 0]) simp

lemma runs_snoc:
  "{n. sublist (replicate n True) (bs @ [b])} =
     {n. sublist (replicate n True) bs} \<union> {..trailing_run (bs @ [b])}"
proof -
  have "sublist (replicate n True) (bs @ [b]) \<longleftrightarrow>
          n \<le> trailing_run (bs @ [b]) \<or> sublist (replicate n True) bs" for n
    by (simp only: sublist_snoc suffix_replicate_True)
  then show ?thesis by blast
qed

lemma longest_run_Nil: "longest_run [] = 0"
  by (simp add: longest_run_def)

lemma longest_run_snoc:
  "longest_run (bs @ [b]) = max (longest_run bs) (trailing_run (bs @ [b]))"
proof -
  have m: "Max {..trailing_run (bs @ [b])} = trailing_run (bs @ [b])"
    by (rule Max_eqI) auto
  show ?thesis
    unfolding longest_run_def runs_snoc
    by (subst Max_Un) (simp_all add: runs_finite runs_nonempty m)
qed

lemma streak_step_eq:
  "streak_step m s =
     \<lparr>bestSequence = max (bestSequence s) (if on_diet m then bestSequenceSoFar s + 1 else 0),
      bestSequenceSoFar = (if on_diet m then bestSequenceSoFar s + 1 else 0)\<rparr>"
  by (simp add: streak_step_def Let_def max_def)

lemma streak_fold:
  "fold streak_step ms \<lparr>bestSequence = 0, bestSequenceSoFar = 0\<rparr> =
     \<lparr>bestSequence = longest_run (map on_diet ms),
      bestSequenceSoFar = trailing_run (map on_diet ms)\<rparr>"
proof (induction ms rule: rev_induct)
  case Nil
  then show ?case by (simp add: longest_run_Nil trailing_run_def)
next
  case (snoc m ms)
  then show ?case
    by (simp add: streak_step_def longest_run_snoc trailing_run_snoc Let_def max_def)
qed

lemma count_fold:
  "fold (\<lambda>meal total. if P meal then total + 1 else total) ms (a::nat) = a + length (filter P ms)"
  by (induction ms arbitrary: a) auto

lemma longest_run_le_length: "longest_run bs \<le> length bs"
  unfolding longest_run_def
  using runs_nonempty[of bs] sublist_length_le
  by (subst Max_le_iff) (fastforce simp: runs_finite)+

lemma longest_run_in: "sublist (replicate (longest_run bs) True) bs"
proof -
  have "Max {n. sublist (replicate n True) bs} \<in> {n. sublist (replicate n True) bs}"
    using runs_nonempty[of bs] by (intro Max_in) (auto simp: runs_finite)
  then show ?thesis by (simp add: longest_run_def)
qed

lemma longest_run_ge: "sublist (replicate n True) bs \<Longrightarrow> n \<le> longest_run bs"
  unfolding longest_run_def by (rule Max_ge) (auto simp: runs_finite)

lemma sublist_same_length: "sublist xs ys \<Longrightarrow> length xs = length ys \<Longrightarrow> xs = ys"
  by (auto simp: sublist_def)

lemma longest_run_full: "longest_run bs = length bs \<longleftrightarrow> (\<forall>b\<in>set bs. b)"
proof
  assume "longest_run bs = length bs"
  with longest_run_in[of bs] have "replicate (length bs) True = bs"
    by (intro sublist_same_length) auto
  then show "\<forall>b\<in>set bs. b"
    by (metis in_set_replicate)
next
  assume "\<forall>b\<in>set bs. b"
  then have "replicate (length bs) True = bs"
    by (simp add: replicate_length_same)
  then have "sublist (replicate (length bs) True) bs" by simp
  then show "longest_run bs = length bs"
    using longest_run_ge longest_run_le_length[of bs] by (simp add: le_antisym)
qed

lemma longest_run_none: "\<forall>b\<in>set bs. \<not> b \<Longrightarrow> longest_run bs = 0"
proof (rule ccontr)
  assume off: "\<forall>b\<in>set bs. \<not> b" and "longest_run bs \<noteq> 0"
  then obtain k where k: "longest_run bs = Suc k" by (cases "longest_run bs") auto
  have "set (replicate (Suc k) True) \<subseteq> set bs"
    using longest_run_in[of bs] k by (metis set_mono_sublist)
  then show False using off by auto
qed

lemma compute_metrics_eq:
  "compute_metrics ms =
     \<lparr>recorded_meals = length ms,
      on_diet_meals = length (filter on_diet ms),
      off_diet_meals = length (filter (\<lambda>m. \<not> on_diet m) ms),
      best_sequence = longest_run (map on_diet ms)\<rparr>"
  by (simp add: compute_metrics_def onDietMeals_def offDietMeals_def count_fold streak_fold)

lemma get_metrics_list_meals:
  "get_metrics w cookie = map_sum id compute_metrics (list_meals w cookie)"
  by (simp add: get_metrics_def list_meals_def split: sum.splits)

subsection \<open>The listing query\<close>

text \<open>
  The listing holds the caller's rows, each as often as the table does, in descending
  order of the stored texts, and rows with the same text in their table order.
\<close>

lemma count_list_insert_desc:
  "count_list (insert_desc m xs) y = count_list (m # xs) y"
  by (induction xs) auto

lemma count_list_orderBy:
  "count_list (orderBy_date_time_desc rows) y = count_list rows y"
  by (induction rows) (simp_all add: orderBy_date_time_desc_def count_list_insert_desc)

lemma set_insert_desc: "set (insert_desc m xs) = insert m (set xs)"
  by (induction xs) auto

lemma sorted_insert_desc:
  "sorted_wrt (\<lambda>a b. date_time b \<le> date_time a) xs \<Longrightarrow>
   sorted_wrt (\<lambda>a b. date_time b \<le> date_time a) (insert_desc m xs)"
  by (induction xs) (auto simp: set_insert_desc)

lemma sorted_orderBy:
  "sorted_wrt (\<lambda>a b. date_time b \<le> date_time a) (orderBy_date_time_desc rows)"
  by (induction rows) (simp_all add: orderBy_date_time_desc_def sorted_insert_desc)

lemma filter_insert_desc:
  "filter (\<lambda>x. date_time x = k) (insert_desc m xs) =
     (if date_time m = k then m # filter (\<lambda>x. date_time x = k) xs
      else filter (\<lambda>x. date_time x = k) xs)"
  by (induction xs) auto

lemma orderBy_keeps_table_order:
  "filter (\<lambda>x. date_time x = k) (orderBy_date_time_desc rows) =
   filter (\<lambda>x. date_time x = k) rows"
  by (induction rows) (simp_all add: orderBy_date_time_desc_def filter_insert_desc)

lemma list_meals_by_text:
  "list_meals w (Some userId) = Inr (orderBy_date_time_desc (where_user userId (meals w)))"
  "sorted_wrt (\<lambda>a b. date_time b \<le> date_time a)
     (orderBy_date_time_desc (where_user userId (meals w)))"
  "count_list (orderBy_date_time_desc (where_user userId (meals w))) m =
     (if user_id m = userId then count_list (meals w) m else 0)"
proof -
  have "count_list (filter P xs) m = (if P m then count_list xs m else 0)" for P and xs :: "meal list"
    by (induction xs) auto
  then show "count_list (orderBy_date_time_desc (where_user userId (meals w))) m =
     (if user_id m = userId then count_list (meals w) m else 0)"
    by (simp add: count_list_orderBy where_user_def)
qed (simp_all add: list_meals_def checkUserIdExists_def sorted_orderBy)

subsection \<open>The routes, case by case\<close>

lemma first_filter_None: "first (filter P rows) = None \<longleftrightarrow> (\<forall>m\<in>set rows. \<not> P m)"
proof -
  have "first (filter P rows) = None \<longleftrightarrow> filter P rows = []"
    by (simp add: first_def split: list.splits)
  then show ?thesis by (simp add: filter_empty_conv)
qed

lemma get_meal_cases:
  "get_meal w (Some userId) p =
     (if is_uuid p then Inr (first (filter (where_id_user p userId) (meals w)))
      else Inl (ZodError [[''id'']]))"
  by (simp add: get_meal_def checkUserIdExists_def getMealParamsSchema_parse_def)

lemma update_meal_cases:
  "update_meal env w (Some userId) p body =
     (if \<not> is_uuid p then (Inl (ZodError [[''id'']]), w)
      else if \<forall>m\<in>set (meals w). \<not> where_id_user p userId m then (Inl NotFound, w)
      else (case updateMealBodySchema_parse body of
              Inl e \<Rightarrow> (Inl e, w)
            | Inr (name', description', dateTime, onDiet) \<Rightarrow>
                knex_update (where_id_user p userId)
                  \<lparr>name_upd = name', description_upd = description',
                   date_time_upd = map_option (ToDateString env) dateTime,
                   on_diet_upd = onDiet\<rparr> w))"
proof (cases "first (filter (where_id_user p userId) (meals w))")
  case None
  then show ?thesis
    using first_filter_None [of "where_id_user p userId" "meals w"]
    by (simp add: update_meal_def checkUserIdExists_def getMealParamsSchema_parse_def)
next
  case (Some m)
  then have "\<not> (\<forall>m\<in>set (meals w). \<not> where_id_user p userId m)"
    using first_filter_None [of "where_id_user p userId" "meals w"] by simp
  with Some show ?thesis
    by (auto simp: update_meal_def checkUserIdExists_def getMealParamsSchema_parse_def)
qed

lemma delete_meal_cases:
  "delete_meal w (Some userId) p =
     (if \<not> is_uuid p then (Inl (ZodError [[''id'']]), w)
      else if \<forall>m\<in>set (meals w). \<not> where_id_user p userId m then (Inl NotFound, w)
      else (Inr (), knex_del (where_id_user p userId) w))"
proof (cases "first (filter (where_id_user p userId) (meals w))")
  case None
  then show ?thesis
    using first_filter_None [of "where_id_user p userId" "meals w"]
    by (simp add: delete_meal_def checkUserIdExists_def getMealParamsSchema_parse_def)
next
  case (Some m)
  then have "\<not> (\<forall>m\<in>set (meals w). \<not> where_id_user p userId m)"
    using first_filter_None [of "where_id_user p userId" "meals w"] by simp
  with Some show ?thesis
    by (auto simp: delete_meal_def checkUserIdExists_def getMealParamsSchema_parse_def)
qed

lemma guarded_routes_Unauthorized:
  "list_meals w None = Inl Unauthorized"
  "get_metrics w None = Inl Unauthorized"
  "get_meal w None p = Inl Unauthorized"
  "update_meal env w None p body = (Inl Unauthorized, w)"
  "delete_meal w None p = (Inl Unauthorized, w)"
  by (simp_all add: list_meals_def get_metrics_def get_meal_def update_meal_def delete_meal_def
      checkUserIdExists_def)

lemma is_uuid_alice: "is_uuid alice"
  by (simp add: alice_def is_uuid_def is_hex_def eval_nat_numeral)

lemma is_uuid_bobs_meal: "is_uuid (meal_id bobs_meal)"
  by (simp add: bobs_meal_def is_uuid_def is_hex_def eval_nat_numeral)

lemma not_uuid_abc: "\<not> is_uuid ''abc''"
  by (simp add: is_uuid_def is_hex_def eval_nat_numeral)

lemma not_uuid_Nil: "\<not> is_uuid []"
  by (simp add: is_uuid_def eval_nat_numeral)

lemma is_uuid_nonempty: "is_uuid s \<Longrightarrow> s \<noteq> []"
  using not_uuid_Nil by auto

lemma example_uuids_wellformed: "is_uuid (example_uuids n)"
  by (simp add: example_uuids_def is_uuid_def is_hex_def eval_nat_numeral)

subsection \<open>The schemas\<close>

lemma z_string_optional_Some:
  "z_string_optional v = Some r \<longleftrightarrow>
     (v = JUndefined \<and> r = None) \<or> (\<exists>s. v = JString s \<and> r = Some s)"
  by (cases v) (auto simp: z_string_optional_def z_string_def)

lemma z_boolean_optional_Some:
  "z_boolean_optional v = Some r \<longleftrightarrow>
     (v = JUndefined \<and> r = None) \<or> (\<exists>x. v = JBoolean x \<and> r = Some x)"
  by (cases v) (auto simp: z_boolean_optional_def z_boolean_def)

lemma z_coerce_date_optional_Some:
  "z_coerce_date_optional d = Some r \<longleftrightarrow>
     (d = DateUndefined \<and> r = None) \<or> (\<exists>t. d = NewDate (Some t) \<and> r = Some t)"
  by (cases d) (auto simp: z_coerce_date_optional_def z_coerce_date_def)

lemma updateMealBodySchema_parse_Inr:
  "updateMealBodySchema_parse (Some b) = Inr (n, d, t, x) \<longleftrightarrow>
     z_string_optional (name_in b) = Some n \<and> z_string_optional (description_in b) = Some d \<and>
     z_coerce_date_optional (dateTime_in b) = Some t \<and> z_boolean_optional (onDiet_in b) = Some x"
  by (auto simp: updateMealBodySchema_parse_def split: option.splits)

lemma updateMealBodySchema_parse_Inl:
  "updateMealBodySchema_parse body = Inl e \<Longrightarrow> \<exists>issues. e = ZodError issues \<and> issues \<noteq> [[''id'']]"
  by (cases body) (auto simp: updateMealBodySchema_parse_def issue_def split: option.splits)

lemma createMealBodySchema_parse_Inr:
  "createMealBodySchema_parse (Some b) = Inr (n, d, t, x) \<longleftrightarrow>
     z_string (name_in b) = Some n \<and> z_string_optional (description_in b) = Some d \<and>
     z_coerce_date (dateTime_in b) = Some t \<and> z_boolean (onDiet_in b) = Some x"
  by (auto simp: createMealBodySchema_parse_def split: option.splits)

lemma createMealBodySchema_parse_Inl:
  assumes "z_string (name_in b) = None \<or> z_string_optional (description_in b) = None \<or>
           z_coerce_date (dateTime_in b) = None \<or> z_boolean (onDiet_in b) = None"
  shows "createMealBodySchema_parse (Some b) =
           Inl (ZodError (issue ''name'' (z_string (name_in b)) @
                          issue ''description'' (z_string_optional (description_in b)) @
                          issue ''dateTime'' (z_coerce_date (dateTime_in b)) @
                          issue ''onDiet'' (z_boolean (onDiet_in b))))"
  using assms by (auto simp: createMealBodySchema_parse_def split: option.splits)

lemma z_string_None: "z_string v = None \<longleftrightarrow> (\<forall>s. v \<noteq> JString s)"
  by (cases v) (auto simp: z_string_def)

lemma z_boolean_None: "z_boolean v = None \<longleftrightarrow> (\<forall>x. v \<noteq> JBoolean x)"
  by (cases v) (auto simp: z_boolean_def)

lemma z_coerce_date_None: "z_coerce_date d = None \<longleftrightarrow> (\<forall>t. d \<noteq> NewDate (Some t))"
  by (cases d) (auto simp: z_coerce_date_def)

lemma issue_mem: "[k] \<in> set (issue k' r) \<longleftrightarrow> k = k' \<and> r = None"
  by (cases r) (auto simp: issue_def)

subsection \<open>Updates\<close>

lemma knex_update_frame:
  assumes "knex_update cond d w = (r, w')"
  shows "length (meals w') = length (meals w)"
    and "uuid_pool w' = uuid_pool w" and "uuid_drawn w' = uuid_drawn w" and "db_now w' = db_now w"
    and "i < length (meals w) \<Longrightarrow>
           meals w' ! i =
             (if r = Inr () \<and> cond (meals w ! i) then set_columns d (meals w ! i) else meals w ! i)"
  using assms by (auto simp: knex_update_def split: if_splits)

lemma update_meal_shape:
  assumes "update_meal env w (Some userId) p (Some b) = (r, w')"
  shows "(r \<noteq> Inr () \<and> w' = w) \<or>
         (\<exists>n d t x. r = Inr () \<and> updateMealBodySchema_parse (Some b) = Inr (n, d, t, x) \<and>
            w' = w\<lparr>meals := map (\<lambda>m. if where_id_user p userId m
                         then set_columns \<lparr>name_upd = n, description_upd = d,
                                date_time_upd = map_option (ToDateString env) t,
                                on_diet_upd = x\<rparr> m
                         else m) (meals w)\<rparr>)"
  using assms
  by (auto simp: update_meal_cases knex_update_def NotFound_def
      split: if_splits sum.splits prod.splits)

lemma update_meal_succeeds:
  assumes "is_uuid p" and "\<exists>m\<in>set (meals w). where_id_user p userId m"
    and "updateMealBodySchema_parse (Some b) = Inr parsed"
    and "\<not> (name_in b = JUndefined \<and> description_in b = JUndefined \<and>
            dateTime_in b = DateUndefined \<and> onDiet_in b = JUndefined)"
  shows "fst (update_meal env w (Some userId) p (Some b)) = Inr ()"
proof -
  obtain n d t x where f: "parsed = (n, d, t, x)" by (cases parsed) auto
  from assms(3) have flds:
    "z_string_optional (name_in b) = Some n" "z_string_optional (description_in b) = Some d"
    "z_coerce_date_optional (dateTime_in b) = Some t" "z_boolean_optional (onDiet_in b) = Some x"
    by (simp_all add: f updateMealBodySchema_parse_Inr)
  have "\<not> (n = None \<and> d = None \<and> t = None \<and> x = None)"
    using flds assms(4)
    by (auto simp: z_string_optional_Some z_boolean_optional_Some z_coerce_date_optional_Some)
  then show ?thesis
    using assms(1,2,3) by (auto simp: update_meal_cases f knex_update_def)
qed

lemma update_only_onDiet:
  "update_meal utc bobs_world (Some bob) ''77777777-7777-4777-8777-777777777777''
     (Some (no_keys\<lparr>onDiet_in := JBoolean False\<rparr>)) =
   (Inr (), bobs_world\<lparr>meals := [bobs_meal\<lparr>on_diet := False\<rparr>]\<rparr>)"
  using is_uuid_bobs_meal
  by (simp add: update_meal_cases bobs_world_def bobs_meal_def where_id_user_def
      updateMealBodySchema_parse_def no_keys_def z_string_optional_def
      z_coerce_date_optional_def z_boolean_optional_def z_boolean_def knex_update_def
      set_columns_def)

lemma set_columns_keeps:
  "meal_id (set_columns d m) = meal_id m" "user_id (set_columns d m) = user_id m"
  "created_at (set_columns d m) = created_at m"
  by (simp_all add: set_columns_def)

lemma update_meal_pool: "uuid_pool (snd (update_meal env w cookie p body)) = uuid_pool w"
  by (cases cookie)
    (auto simp: guarded_routes_Unauthorized update_meal_cases knex_update_def
      split: sum.splits prod.splits)

lemma delete_meal_pool: "uuid_pool (snd (delete_meal w cookie p)) = uuid_pool w"
  by (cases cookie) (auto simp: guarded_routes_Unauthorized delete_meal_cases knex_del_def)

subsection \<open>Creation\<close>

text \<open>
  A creation with a valid body succeeds. It appends one row. Without a cookie (or with an
  empty one) it draws two UUIDs, the first for the token, which it sends back in a cookie,
  the second for the row; with a cookie it draws one, for the row, and sets no cookie.
\<close>

lemma create_meal_Inl: "create_meal env w cookie body = (Inl e, w') \<Longrightarrow> w' = w"
  by (auto simp: create_meal_def Let_def randomUUID_def split: sum.splits prod.splits if_splits)

lemma create_meal_Inr:
  assumes "create_meal env w cookie body = (Inr c, w')"
  shows "\<exists>row. meals w' = meals w @ [row] \<and> uuid_pool w' = uuid_pool w \<and>
           (if cookie = None \<or> cookie = Some []
            then c = Some \<lparr>cookie_name = ''userId'', cookie_value = uuid_pool w (uuid_drawn w),
                           path = ''/'', maxAge = 604800000\<rparr> \<and>
                 user_id row = uuid_pool w (uuid_drawn w) \<and>
                 meal_id row = uuid_pool w (Suc (uuid_drawn w)) \<and>
                 uuid_drawn w' = Suc (Suc (uuid_drawn w))
            else c = None \<and> cookie = Some (user_id row) \<and>
                 meal_id row = uuid_pool w (uuid_drawn w) \<and>
                 uuid_drawn w' = Suc (uuid_drawn w))"
  using assms
  by (auto simp: create_meal_def Let_def randomUUID_def
      split: sum.splits prod.splits if_splits option.splits)

lemma create_meal_succeeds:
  assumes "createMealBodySchema_parse body = Inr parsed"
  shows "\<exists>c w'. create_meal env w cookie body = (Inr c, w')"
  using assms by (auto simp: create_meal_def Let_def split: prod.splits)

subsection \<open>Writes and the rows of others\<close>

lemma filter_map_scoped:
  assumes "\<And>m. P m \<Longrightarrow> user_id m = t" and "\<And>m. user_id (f m) = user_id m"
  shows "filter (\<lambda>m. user_id m \<noteq> t) (map (\<lambda>m. if P m then f m else m) rows) =
         filter (\<lambda>m. user_id m \<noteq> t) rows"
  using assms by (induction rows) auto

lemma update_meal_scoped:
  "filter (\<lambda>m. user_id m \<noteq> t) (meals (snd (update_meal env w (Some t) p body))) =
   filter (\<lambda>m. user_id m \<noteq> t) (meals w)"
proof -
  have "filter (\<lambda>m. user_id m \<noteq> t)
          (map (\<lambda>m. if where_id_user p t m then set_columns d m else m) (meals w)) =
        filter (\<lambda>m. user_id m \<noteq> t) (meals w)" for d
    by (rule filter_map_scoped) (simp_all add: where_id_user_def set_columns_keeps)
  then show ?thesis
    by (auto simp: update_meal_cases knex_update_def split: sum.splits prod.splits)
qed

lemma delete_meal_scoped:
  "filter (\<lambda>m. user_id m \<noteq> t) (meals (snd (delete_meal w (Some t) p))) =
   filter (\<lambda>m. user_id m \<noteq> t) (meals w)"
proof -
  have "filter (\<lambda>m. user_id m \<noteq> t) (filter (\<lambda>m. \<not> where_id_user p t m) (meals w)) =
        filter (\<lambda>m. user_id m \<noteq> t) (meals w)"
    by (induction "meals w") (auto simp: where_id_user_def intro: filter_cong)
  then show ?thesis
    by (auto simp: delete_meal_cases knex_del_def)
qed

lemma perform_scoped:
  assumes pool: "\<forall>n. is_uuid (uuid_pool w n)" and jar: "jar \<noteq> Some []"
    and step: "perform env r (w, jar) = (w1, jar1)"
  shows "uuid_pool w1 = uuid_pool w \<and> jar1 \<noteq> Some [] \<and>
         (jar1 = None \<longrightarrow> jar = None \<and> meals w1 = meals w) \<and>
         (\<forall>t. jar1 = Some t \<longrightarrow> (jar = None \<or> jar = Some t) \<and>
            filter (\<lambda>m. user_id m \<noteq> t) (meals w1) = filter (\<lambda>m. user_id m \<noteq> t) (meals w))"
proof (cases r)
  case (Post_meal body)
  obtain res w' where c: "create_meal env w jar body = (res, w')"
    by (cases "create_meal env w jar body") auto
  show ?thesis
  proof (cases res)
    case (Inl e)
    with c step Post_meal create_meal_Inl [of env w jar body e w'] jar show ?thesis
      by (auto simp: perform_def)
  next
    case (Inr k)
    from create_meal_Inr [OF c [unfolded Inr]] obtain row where row:
      "meals w' = meals w @ [row]" "uuid_pool w' = uuid_pool w"
      "if jar = None \<or> jar = Some []
       then k = Some \<lparr>cookie_name = ''userId'', cookie_value = uuid_pool w (uuid_drawn w),
                      path = ''/'', maxAge = 604800000\<rparr> \<and>
            user_id row = uuid_pool w (uuid_drawn w) \<and>
            meal_id row = uuid_pool w (Suc (uuid_drawn w)) \<and>
            uuid_drawn w' = Suc (Suc (uuid_drawn w))
       else k = None \<and> jar = Some (user_id row) \<and> meal_id row = uuid_pool w (uuid_drawn w) \<and>
            uuid_drawn w' = Suc (uuid_drawn w)"
      by blast
    show ?thesis
    proof (cases "jar = None")
      case True
      with row have "k = Some \<lparr>cookie_name = ''userId'', cookie_value = uuid_pool w (uuid_drawn w),
                      path = ''/'', maxAge = 604800000\<rparr>" "user_id row = uuid_pool w (uuid_drawn w)"
        by simp_all
      with c step Post_meal Inr True row(1,2) is_uuid_nonempty [of "uuid_pool w (uuid_drawn w)"] pool
      show ?thesis by (auto simp: perform_def)
    next
      case False
      with jar row have "k = None" "jar = Some (user_id row)" by auto
      with c step Post_meal Inr row(1,2) jar show ?thesis by (auto simp: perform_def)
    qed
  qed
next
  case (Put_meal p body)
  show ?thesis
  proof (cases jar)
    case None
    with step Put_meal show ?thesis
      by (auto simp: perform_def guarded_routes_Unauthorized)
  next
    case (Some t)
    with step Put_meal jar update_meal_scoped [of t env w p body] update_meal_pool [of env w jar p body]
    show ?thesis by (auto simp: perform_def)
  qed
next
  case (Delete_meal p)
  show ?thesis
  proof (cases jar)
    case None
    with step Delete_meal show ?thesis
      by (auto simp: perform_def guarded_routes_Unauthorized)
  next
    case (Some t)
    with step Delete_meal jar delete_meal_scoped [of t w p] delete_meal_pool [of w jar p]
    show ?thesis by (auto simp: perform_def)
  qed
qed (insert step jar, auto simp: perform_def)

lemma session_scoped:
  assumes "\<forall>n. is_uuid (uuid_pool w n)" and "jar \<noteq> Some []"
    and "session env rs (w, jar) = (w', jar')"
  shows "(jar' = None \<longrightarrow> jar = None \<and> meals w' = meals w) \<and>
         (\<forall>t. jar' = Some t \<longrightarrow> (jar = None \<or> jar = Some t) \<and>
            filter (\<lambda>m. user_id m \<noteq> t) (meals w') = filter (\<lambda>m. user_id m \<noteq> t) (meals w))"
  using assms
proof (induction rs arbitrary: w jar)
  case Nil
  then show ?case by (auto simp: session_def)
next
  case (Cons r rs)
  obtain w1 jar1 where step: "perform env r (w, jar) = (w1, jar1)"
    by (cases "perform env r (w, jar)") auto
  from perform_scoped [OF Cons.prems(1,2) step] have one:
    "uuid_pool w1 = uuid_pool w" "jar1 \<noteq> Some []"
    "jar1 = None \<longrightarrow> jar = None \<and> meals w1 = meals w"
    "\<forall>t. jar1 = Some t \<longrightarrow> (jar = None \<or> jar = Some t) \<and>
       filter (\<lambda>m. user_id m \<noteq> t) (meals w1) = filter (\<lambda>m. user_id m \<noteq> t) (meals w)"
    by blast+
  have pool1: "\<forall>n. is_uuid (uuid_pool w1 n)"
    using Cons.prems(1) one(1) by simp
  have rest: "session env rs (w1, jar1) = (w', jar')"
    using Cons.prems(3) step by (simp add: session_def)
  from Cons.IH [OF pool1 one(2) rest] have ih:
    "jar' = None \<longrightarrow> jar1 = None \<and> meals w' = meals w1"
    "\<forall>t. jar' = Some t \<longrightarrow> (jar1 = None \<or> jar1 = Some t) \<and>
       filter (\<lambda>m. user_id m \<noteq> t) (meals w') = filter (\<lambda>m. user_id m \<noteq> t) (meals w1)"
    by blast+
  show ?case
  proof (intro conjI impI allI)
    assume "jar' = None"
    with ih(1) one(3) show "jar = None" by blast
  next
    assume "jar' = None"
    with ih(1) one(3) show "meals w' = meals w" by simp
  next
    fix t assume t: "jar' = Some t"
    with ih(2) one(3,4) show "jar = None \<or> jar = Some t" by (cases jar1) auto
  next
    fix t assume t: "jar' = Some t"
    with ih(2) have a: "jar1 = None \<or> jar1 = Some t"
      and b: "filter (\<lambda>m. user_id m \<noteq> t) (meals w') = filter (\<lambda>m. user_id m \<noteq> t) (meals w1)"
      by blast+
    from a one(3,4) have "filter (\<lambda>m. user_id m \<noteq> t) (meals w1) = filter (\<lambda>m. user_id m \<noteq> t) (meals w)"
      by auto
    with b show "filter (\<lambda>m. user_id m \<noteq> t) (meals w') = filter (\<lambda>m. user_id m \<noteq> t) (meals w)"
      by simp
  qed
qed

lemma busy_session_result:
  "session utc busy_session (bobs_world, None) =
     (bobs_world\<lparr>uuid_drawn := 3,
        meals := [bobs_meal,
                  \<lparr>meal_id = ''33333333-3333-4333-8333-333333333333'', user_id = alice,
                    name = ''Lunch'', description = None,
                    date_time = ''Fri Jan 02 1970 00:00:00 GMT+0000 (Coordinated Universal Time)'',
                    on_diet = False, created_at = ''2024-01-05 12:00:00''\<rparr>]\<rparr>,
      Some alice)"
proof -
  have u: "is_uuid ''77777777-7777-4777-8777-777777777777''"
      "is_uuid ''22222222-2222-4222-8222-222222222222''"
    by (simp_all add: is_uuid_def is_hex_def eval_nat_numeral)
  show ?thesis
    by (simp add: session_def busy_session_def perform_def create_meal_def
        createMealBodySchema_parse_def lunch_def no_keys_def z_string_def z_string_optional_def
        z_coerce_date_def z_boolean_def randomUUID_def bobs_world_def fresh_world_def
        example_uuids_def epoch_text next_day_text update_meal_cases delete_meal_cases u
        where_id_user_def bobs_meal_def bob_def alice_def updateMealBodySchema_parse_def
        z_coerce_date_optional_def z_boolean_optional_def knex_update_def knex_del_def
        set_columns_def NotFound_def)
qed

lemma two_lunches_rows:
  "meals two_lunches =
     [\<lparr>meal_id = ''22222222-2222-4222-8222-222222222222'', user_id = alice,
        name = ''Lunch'', description = None,
        date_time = ''Wed Jan 03 2024 12:00:00 GMT+0000 (Coordinated Universal Time)'',
        on_diet = True, created_at = ''2024-01-05 12:00:00''\<rparr>,
      \<lparr>meal_id = ''33333333-3333-4333-8333-333333333333'', user_id = alice,
        name = ''Lunch'', description = None,
        date_time = ''Thu Jan 04 2024 12:00:00 GMT+0000 (Coordinated Universal Time)'',
        on_diet = True, created_at = ''2024-01-05 12:00:00''\<rparr>]"
  by (simp add: two_lunches_def create_meal_def createMealBodySchema_parse_def lunch_def
      z_string_def z_string_optional_def z_coerce_date_def z_boolean_def randomUUID_def
      fresh_world_def example_uuids_def wednesday_text thursday_text alice_def)

text \<open>
  The identifiers in the table stay well-formed: every row that a session adds gets its
  identifier from \<open>randomUUID()\<close>.
\<close>

lemma perform_keeps_ids:
  assumes pool: "\<forall>n. is_uuid (uuid_pool w n)"
    and ids: "\<forall>m\<in>set (meals w). is_uuid (meal_id m)"
    and step: "perform env r (w, jar) = (w1, jar1)"
  shows "(\<forall>n. is_uuid (uuid_pool w1 n)) \<and> (\<forall>m\<in>set (meals w1). is_uuid (meal_id m))"
proof (cases r)
  case (Post_meal body)
  obtain res w' where c: "create_meal env w jar body = (res, w')"
    by (cases "create_meal env w jar body") auto
  show ?thesis
  proof (cases res)
    case (Inl e)
    with c step Post_meal create_meal_Inl [of env w jar body e w'] pool ids show ?thesis
      by (auto simp: perform_def)
  next
    case (Inr k)
    from create_meal_Inr [OF c [unfolded Inr]] obtain row where row:
      "meals w' = meals w @ [row]" "uuid_pool w' = uuid_pool w"
      "meal_id row = uuid_pool w (Suc (uuid_drawn w)) \<or> meal_id row = uuid_pool w (uuid_drawn w)"
      by (auto split: if_splits)
    have "w1 = w'" using c step Post_meal Inr by (auto simp: perform_def split: option.splits)
    with row pool ids show ?thesis by auto
  qed
next
  case (Put_meal p body)
  have "map meal_id (meals (snd (update_meal env w jar p body))) = map meal_id (meals w)"
    by (cases jar)
      (auto simp: guarded_routes_Unauthorized update_meal_cases knex_update_def set_columns_keeps
        split: sum.splits prod.splits)
  then have "meal_id ` set (meals (snd (update_meal env w jar p body))) = meal_id ` set (meals w)"
    by (metis set_map)
  then have "\<forall>m\<in>set (meals (snd (update_meal env w jar p body))). is_uuid (meal_id m)"
    using ids by (metis (no_types, lifting) image_iff)
  with step Put_meal pool update_meal_pool [of env w jar p body] show ?thesis
    by (auto simp: perform_def)
next
  case (Delete_meal p)
  have "set (meals (snd (delete_meal w jar p))) \<subseteq> set (meals w)"
    by (cases jar) (auto simp: guarded_routes_Unauthorized delete_meal_cases knex_del_def)
  with step Delete_meal pool ids delete_meal_pool [of w jar p] show ?thesis
    by (auto simp: perform_def)
qed (insert step pool ids, auto simp: perform_def)

lemma session_keeps_ids:
  assumes "\<forall>n. is_uuid (uuid_pool w n)" and "\<forall>m\<in>set (meals w). is_uuid (meal_id m)"
    and "session env rs (w, jar) = (w', jar')"
  shows "\<forall>m\<in>set (meals w'). is_uuid (meal_id m)"
  using assms
proof (induction rs arbitrary: w jar)
  case Nil
  then show ?case by (simp add: session_def)
next
  case (Cons r rs)
  obtain w1 jar1 where step: "perform env r (w, jar) = (w1, jar1)"
    by (cases "perform env r (w, jar)") auto
  from perform_keeps_ids [OF Cons.prems(1,2) step]
  have "\<forall>n. is_uuid (uuid_pool w1 n)" "\<forall>m\<in>set (meals w1). is_uuid (meal_id m)" by blast+
  moreover have "session env rs (w1, jar1) = (w', jar')"
    using Cons.prems(3) step by (simp add: session_def)
  ultimately show ?case by (rule Cons.IH)
qed

section \<open>The claims\<close>

text \<open>
  C1. The metrics route computes the metrics of the very list that the listing route
  returns. For every list of meals, \<open>recorded_meals\<close> is its length, \<open>on_diet_meals\<close>
  the number of meals with \<open>on_diet\<close> true, \<open>off_diet_meals\<close> the number with
  \<open>on_diet\<close> false, and \<open>best_sequence\<close> the length of the longest run of
  consecutive meals with \<open>on_diet\<close> true. One step of the pass adds one to the running
  counter for a meal on the diet and sets it to zero otherwise, and keeps the larger of the
  maximum so far and the new counter; the pass ends with the longest run in
  \<open>bestSequence\<close> and the length of the run at the end of the list in the running
  counter. For the empty list all four metrics are zero.
\<close>

theorem metrics_count_and_longest_run:
  "get_metrics w cookie = map_sum id compute_metrics (list_meals w cookie) \<and>
   compute_metrics ms =
     \<lparr>recorded_meals = length ms,
      on_diet_meals = length (filter on_diet ms),
      off_diet_meals = length (filter (\<lambda>m. \<not> on_diet m) ms),
      best_sequence = longest_run (map on_diet ms)\<rparr> \<and>
   streak_step m s =
     \<lparr>bestSequence = max (bestSequence s) (if on_diet m then bestSequenceSoFar s + 1 else 0),
      bestSequenceSoFar = (if on_diet m then bestSequenceSoFar s + 1 else 0)\<rparr> \<and>
   fold streak_step ms \<lparr>bestSequence = 0, bestSequenceSoFar = 0\<rparr> =
     \<lparr>bestSequence = longest_run (map on_diet ms),
      bestSequenceSoFar = trailing_run (map on_diet ms)\<rparr> \<and>
   compute_metrics [] =
     \<lparr>recorded_meals = 0, on_diet_meals = 0, off_diet_meals = 0, best_sequence = 0\<rparr>"
  using streak_step_eq [of m s]
  by (simp add: get_metrics_list_meals streak_fold compute_metrics_eq longest_run_Nil)

theorem metrics_count_and_longest_run_witness:
  "longest_run [True, True, False, True] = 2 \<and>
   compute_metrics four_meals =
     \<lparr>recorded_meals = 4, on_diet_meals = 3, off_diet_meals = 1, best_sequence = 2\<rparr> \<and>
   get_metrics bobs_world (Some bob) =
     Inr \<lparr>recorded_meals = 1, on_diet_meals = 1, off_diet_meals = 0, best_sequence = 1\<rparr>"
proof -
  note four = metrics_count_and_longest_run [of bobs_world "Some bob" four_meals bobs_meal
      "\<lparr>bestSequence = 0, bestSequenceSoFar = 0\<rparr>"]
  have on: "map on_diet four_meals = [True, True, False, True]"
    by (simp add: four_meals_def bobs_meal_def)
  have run: "bestSequence (fold streak_step four_meals \<lparr>bestSequence = 0, bestSequenceSoFar = 0\<rparr>) = 2"
    by (simp add: four_meals_def streak_step_def bobs_meal_def)
  have longest: "longest_run [True, True, False, True] = 2"
    using four [THEN conjunct2, THEN conjunct2, THEN conjunct2, THEN conjunct1] run
    by (simp add: on)
  have counted: "compute_metrics four_meals =
      \<lparr>recorded_meals = 4, on_diet_meals = 3, off_diet_meals = 1, best_sequence = 2\<rparr>"
    using four [THEN conjunct2, THEN conjunct1] longest
    by (simp add: on) (simp add: four_meals_def bobs_meal_def)
  have listed: "list_meals bobs_world (Some bob) = Inr [bobs_meal]"
    by (simp add: list_meals_def checkUserIdExists_def where_user_def orderBy_date_time_desc_def
        bobs_world_def fresh_world_def bobs_meal_def)
  have single: "compute_metrics [bobs_meal] =
      \<lparr>recorded_meals = 1, on_diet_meals = 1, off_diet_meals = 0, best_sequence = 1\<rparr>"
    by (simp add: compute_metrics_def onDietMeals_def offDietMeals_def streak_step_def
        bobs_meal_def)
  have answered: "get_metrics bobs_world (Some bob) =
      Inr \<lparr>recorded_meals = 1, on_diet_meals = 1, off_diet_meals = 0, best_sequence = 1\<rparr>"
    using four [THEN conjunct1] by (simp add: listed single)
  show ?thesis
    using longest counted answered by simp
qed

text \<open>
  C2. The listing is ordered by the text stored in \<open>date_time\<close>, which is what
  \<open>String(dateTime)\<close> printed, and that text starts with the name of the weekday.
  Alice records a meal of Wednesday 3 January 2024 and a meal of Thursday 4 January 2024;
  her listing has the meal of Wednesday first, the older one, although the order asked for
  is descending.
\<close>

theorem list_orders_text_not_time:
  "(1704283200000 :: int) < 1704369600000 \<and>
   map_sum id (map date_time) (list_meals two_lunches (Some alice)) =
     Inr [''Wed Jan 03 2024 12:00:00 GMT+0000 (Coordinated Universal Time)'',
          ''Thu Jan 04 2024 12:00:00 GMT+0000 (Coordinated Universal Time)'']"
  by (simp add: list_meals_def checkUserIdExists_def where_user_def orderBy_date_time_desc_def
      two_lunches_rows)

text \<open>
  C3. For every list of meals, \<open>best_sequence\<close> is at most \<open>recorded_meals\<close>; the
  two are equal exactly when every meal is on the diet; and when no meal is on the diet,
  \<open>best_sequence\<close> is zero.
\<close>

theorem best_sequence_bounds:
  "best_sequence (compute_metrics ms) \<le> recorded_meals (compute_metrics ms) \<and>
   (best_sequence (compute_metrics ms) = recorded_meals (compute_metrics ms) \<longleftrightarrow>
      (\<forall>m\<in>set ms. on_diet m)) \<and>
   ((\<forall>m\<in>set ms. \<not> on_diet m) \<longrightarrow> best_sequence (compute_metrics ms) = 0)"
  using longest_run_le_length [of "map on_diet ms"] longest_run_full [of "map on_diet ms"]
    longest_run_none [of "map on_diet ms"]
  by (simp add: compute_metrics_eq)

theorem best_sequence_bounds_witness:
  "best_sequence (compute_metrics [bobs_meal, bobs_meal]) =
     recorded_meals (compute_metrics [bobs_meal, bobs_meal]) \<and>
   on_diet bobs_meal \<and>
   best_sequence (compute_metrics [bobs_meal\<lparr>on_diet := False\<rparr>, bobs_meal\<lparr>on_diet := False\<rparr>]) = 0 \<and>
   best_sequence (compute_metrics four_meals) < recorded_meals (compute_metrics four_meals)"
  using best_sequence_bounds [of "[bobs_meal, bobs_meal]"]
    best_sequence_bounds [of "[bobs_meal\<lparr>on_diet := False\<rparr>, bobs_meal\<lparr>on_diet := False\<rparr>]"]
    best_sequence_bounds [of four_meals]
  by (auto simp: bobs_meal_def four_meals_def)

text \<open>
  C4. An update by a caller with a token leaves the number of rows, and in every row the
  columns \<open>id\<close>, \<open>user_id\<close> and \<open>created_at\<close>, as they were. A column whose key
  the body omits keeps its value in every row, and a row that is not the caller's row with
  the given id is not changed at all. When the update succeeds, each of the caller's rows
  with that id holds the supplied name, description and \<open>onDiet\<close>, and the text of the
  supplied date. The update succeeds whenever the id is a UUID, the caller owns a row with
  that id, the body is valid and supplies at least one key.
\<close>

theorem update_replaces_supplied_fields:
  assumes "update_meal env w (Some userId) p (Some b) = (r, w')"
  shows "length (meals w') = length (meals w) \<and>
    (\<forall>i<length (meals w).
       meal_id (meals w' ! i) = meal_id (meals w ! i) \<and>
       user_id (meals w' ! i) = user_id (meals w ! i) \<and>
       created_at (meals w' ! i) = created_at (meals w ! i) \<and>
       (name_in b = JUndefined \<longrightarrow> name (meals w' ! i) = name (meals w ! i)) \<and>
       (description_in b = JUndefined \<longrightarrow>
          description (meals w' ! i) = description (meals w ! i)) \<and>
       (dateTime_in b = DateUndefined \<longrightarrow> date_time (meals w' ! i) = date_time (meals w ! i)) \<and>
       (onDiet_in b = JUndefined \<longrightarrow> on_diet (meals w' ! i) = on_diet (meals w ! i)) \<and>
       (\<not> where_id_user p userId (meals w ! i) \<longrightarrow> meals w' ! i = meals w ! i) \<and>
       (r = Inr () \<and> where_id_user p userId (meals w ! i) \<longrightarrow>
          (\<forall>s. name_in b = JString s \<longrightarrow> name (meals w' ! i) = s) \<and>
          (\<forall>s. description_in b = JString s \<longrightarrow> description (meals w' ! i) = Some s) \<and>
          (\<forall>t. dateTime_in b = NewDate (Some t) \<longrightarrow>
             date_time (meals w' ! i) = ToDateString env t) \<and>
          (\<forall>x. onDiet_in b = JBoolean x \<longrightarrow> on_diet (meals w' ! i) = x))) \<and>
    (is_uuid p \<and> (\<exists>m\<in>set (meals w). where_id_user p userId m) \<and>
     (\<exists>parsed. updateMealBodySchema_parse (Some b) = Inr parsed) \<and>
     \<not> (name_in b = JUndefined \<and> description_in b = JUndefined \<and>
        dateTime_in b = DateUndefined \<and> onDiet_in b = JUndefined) \<longrightarrow> r = Inr ())"
proof -
  from update_meal_shape [OF assms] show ?thesis
  proof (elim disjE exE conjE)
    assume nr: "r \<noteq> Inr ()" and ww: "w' = w"
    have "r = Inr ()"
      if "is_uuid p" and "\<exists>m\<in>set (meals w). where_id_user p userId m"
        and "updateMealBodySchema_parse (Some b) = Inr parsed"
        and "\<not> (name_in b = JUndefined \<and> description_in b = JUndefined \<and>
               dateTime_in b = DateUndefined \<and> onDiet_in b = JUndefined)" for parsed
      using update_meal_succeeds [OF that, of env] assms by simp
    with nr ww show ?thesis by blast
  next
    fix n d t x
    assume r: "r = Inr ()"
      and parse: "updateMealBodySchema_parse (Some b) = Inr (n, d, t, x)"
      and w': "w' = w\<lparr>meals := map (\<lambda>m. if where_id_user p userId m
                         then set_columns \<lparr>name_upd = n, description_upd = d,
                                date_time_upd = map_option (ToDateString env) t,
                                on_diet_upd = x\<rparr> m
                         else m) (meals w)\<rparr>"
    from parse have flds:
      "z_string_optional (name_in b) = Some n" "z_string_optional (description_in b) = Some d"
      "z_coerce_date_optional (dateTime_in b) = Some t" "z_boolean_optional (onDiet_in b) = Some x"
      by (simp_all add: updateMealBodySchema_parse_Inr)
    show ?thesis
      using flds r
      by (auto simp: w' set_columns_def z_string_optional_Some z_boolean_optional_Some
          z_coerce_date_optional_Some)
  qed
qed

theorem update_replaces_supplied_fields_witness:
  "update_meal utc bobs_world (Some bob) ''77777777-7777-4777-8777-777777777777''
     (Some (no_keys\<lparr>onDiet_in := JBoolean False\<rparr>)) =
   (Inr (), bobs_world\<lparr>meals := [bobs_meal\<lparr>on_diet := False\<rparr>]\<rparr>) \<and>
   meal_id (meals (bobs_world\<lparr>meals := [bobs_meal\<lparr>on_diet := False\<rparr>]\<rparr>) ! 0) =
     ''77777777-7777-4777-8777-777777777777'' \<and>
   user_id (meals (bobs_world\<lparr>meals := [bobs_meal\<lparr>on_diet := False\<rparr>]\<rparr>) ! 0) = bob \<and>
   created_at (meals (bobs_world\<lparr>meals := [bobs_meal\<lparr>on_diet := False\<rparr>]\<rparr>) ! 0) =
     ''2024-01-05 19:30:00'' \<and>
   name (meals (bobs_world\<lparr>meals := [bobs_meal\<lparr>on_diet := False\<rparr>]\<rparr>) ! 0) = ''Dinner'' \<and>
   description (meals (bobs_world\<lparr>meals := [bobs_meal\<lparr>on_diet := False\<rparr>]\<rparr>) ! 0) =
     Some ''Soup'' \<and>
   date_time (meals (bobs_world\<lparr>meals := [bobs_meal\<lparr>on_diet := False\<rparr>]\<rparr>) ! 0) =
     ''Fri Jan 05 2024 19:00:00 GMT+0000 (Coordinated Universal Time)'' \<and>
   on_diet (meals (bobs_world\<lparr>meals := [bobs_meal\<lparr>on_diet := False\<rparr>]\<rparr>) ! 0) = False"
  using update_replaces_supplied_fields [OF update_only_onDiet] update_only_onDiet
  by (simp add: bobs_world_def bobs_meal_def no_keys_def where_id_user_def)

text \<open>
  C5, as stated, fails for an id that is not a UUID: the caller owns no meal with the id
  \<open>abc\<close>, and both update and delete fail with the \<open>ZodError\<close> of the parameter
  schema, which is not the error \<open>Not Found\<close>.
\<close>

theorem update_delete_malformed_id:
  "update_meal utc bobs_world (Some alice) ''abc'' (Some (lunch 0 True)) =
     (Inl (ZodError [[''id'']]), bobs_world) \<and>
   delete_meal bobs_world (Some alice) ''abc'' = (Inl (ZodError [[''id'']]), bobs_world) \<and>
   filter (where_id_user ''abc'' alice) (meals bobs_world) = [] \<and>
   ZodError [[''id'']] \<noteq> NotFound"
  using not_uuid_abc
  by (simp add: update_meal_cases delete_meal_cases NotFound_def bobs_world_def
      where_id_user_def bobs_meal_def)

text \<open>
  C5, amended. When the caller owns no meal with the given id, update and delete fail
  and leave the state as it was: with \<open>Not Found\<close> when the id is a UUID, and with the
  \<open>ZodError\<close> of the parameter schema otherwise.
\<close>

theorem no_owned_meal_fails_unchanged:
  assumes "\<forall>m\<in>set (meals w). \<not> where_id_user p userId m"
  shows "update_meal env w (Some userId) p body =
           (Inl (if is_uuid p then NotFound else ZodError [[''id'']]), w) \<and>
         delete_meal w (Some userId) p =
           (Inl (if is_uuid p then NotFound else ZodError [[''id'']]), w)"
  using assms by (simp add: update_meal_cases delete_meal_cases)

theorem no_owned_meal_fails_unchanged_witness:
  "update_meal utc bobs_world (Some alice) ''77777777-7777-4777-8777-777777777777''
     (Some (lunch 0 True)) = (Inl NotFound, bobs_world) \<and>
   delete_meal bobs_world (Some alice) ''77777777-7777-4777-8777-777777777777'' =
     (Inl NotFound, bobs_world) \<and>
   update_meal utc fresh_world (Some alice) ''abc'' None =
     (Inl (ZodError [[''id'']]), fresh_world)"
proof -
  have a: "\<forall>m\<in>set (meals bobs_world). \<not> where_id_user ''77777777-7777-4777-8777-777777777777'' alice m"
    by (simp add: bobs_world_def where_id_user_def bobs_meal_def bob_def alice_def)
  have b: "\<forall>m\<in>set (meals fresh_world). \<not> where_id_user ''abc'' alice m"
    by (simp add: fresh_world_def)
  show ?thesis
    using no_owned_meal_fails_unchanged [OF a, of utc "Some (lunch 0 True)"]
      no_owned_meal_fails_unchanged [OF b, of utc None] is_uuid_bobs_meal not_uuid_abc
    by (simp add: bobs_meal_def)
qed

text \<open>
  C6. In a table whose identifiers are UUIDs, let a meal with the id \<open>p\<close> exist and
  let no meal with that id belong to the caller. Then reading that meal gives no meal and
  no error, update and delete fail with \<open>Not Found\<close> and leave the state as it was, and
  each of the three answers is the one the caller gets from the table without any meal of
  that id.
\<close>

theorem foreign_meal_like_no_meal:
  assumes "\<forall>x\<in>set (meals w). is_uuid (meal_id x)"
    and "m \<in> set (meals w)" and "meal_id m = p"
    and "\<forall>x\<in>set (meals w). meal_id x = p \<longrightarrow> user_id x \<noteq> userId"
  shows "get_meal w (Some userId) p = Inr None \<and>
         get_meal (w\<lparr>meals := filter (\<lambda>x. meal_id x \<noteq> p) (meals w)\<rparr>) (Some userId) p = Inr None \<and>
         update_meal env w (Some userId) p body = (Inl NotFound, w) \<and>
         fst (update_meal env (w\<lparr>meals := filter (\<lambda>x. meal_id x \<noteq> p) (meals w)\<rparr>)
                (Some userId) p body) = Inl NotFound \<and>
         delete_meal w (Some userId) p = (Inl NotFound, w) \<and>
         fst (delete_meal (w\<lparr>meals := filter (\<lambda>x. meal_id x \<noteq> p) (meals w)\<rparr>)
                (Some userId) p) = Inl NotFound"
proof -
  have uuid: "is_uuid p"
    using assms(1,2,3) by blast
  have none: "\<forall>x\<in>set (meals w). \<not> where_id_user p userId x"
    using assms(4) by (auto simp: where_id_user_def)
  have none': "\<forall>x\<in>set (meals (w\<lparr>meals := filter (\<lambda>x. meal_id x \<noteq> p) (meals w)\<rparr>)).
                 \<not> where_id_user p userId x"
    by (auto simp: where_id_user_def)
  have "first (filter (where_id_user p userId) (meals w)) = None"
    using none by (simp only: first_filter_None)
  moreover have "first (filter (where_id_user p userId)
      (meals (w\<lparr>meals := filter (\<lambda>x. meal_id x \<noteq> p) (meals w)\<rparr>))) = None"
    using none' by (simp only: first_filter_None)
  ultimately show ?thesis
    using none none' uuid
    by (simp add: get_meal_cases update_meal_cases delete_meal_cases)
qed

theorem foreign_meal_like_no_meal_witness:
  "bobs_meal \<in> set (meals bobs_world) \<and>
   user_id bobs_meal \<noteq> alice \<and>
   get_meal bobs_world (Some alice) ''77777777-7777-4777-8777-777777777777'' = Inr None \<and>
   get_meal fresh_world (Some alice) ''77777777-7777-4777-8777-777777777777'' = Inr None \<and>
   update_meal utc bobs_world (Some alice) ''77777777-7777-4777-8777-777777777777''
     (Some (lunch 0 True)) = (Inl NotFound, bobs_world) \<and>
   fst (update_meal utc fresh_world (Some alice) ''77777777-7777-4777-8777-777777777777''
     (Some (lunch 0 True))) = Inl NotFound \<and>
   delete_meal bobs_world (Some alice) ''77777777-7777-4777-8777-777777777777'' =
     (Inl NotFound, bobs_world) \<and>
   fst (delete_meal fresh_world (Some alice) ''77777777-7777-4777-8777-777777777777'') =
     Inl NotFound"
proof -
  have i: "\<forall>x\<in>set (meals bobs_world). is_uuid (meal_id x)"
    using is_uuid_bobs_meal by (simp add: bobs_world_def)
  have a: "bobs_meal \<in> set (meals bobs_world)"
    by (simp add: bobs_world_def)
  have b: "meal_id bobs_meal = ''77777777-7777-4777-8777-777777777777''"
    by (simp add: bobs_meal_def)
  have d: "\<forall>x\<in>set (meals bobs_world).
             meal_id x = ''77777777-7777-4777-8777-777777777777'' \<longrightarrow> user_id x \<noteq> alice"
    by (simp add: bobs_world_def bobs_meal_def bob_def alice_def)
  have e: "bobs_world\<lparr>meals := filter (\<lambda>x. meal_id x \<noteq> ''77777777-7777-4777-8777-777777777777'')
             (meals bobs_world)\<rparr> = fresh_world"
    by (simp add: bobs_world_def bobs_meal_def fresh_world_def)
  show ?thesis
    using foreign_meal_like_no_meal [OF i a b d, of utc "Some (lunch 0 True)"] a
    by (simp add: e) (simp add: bobs_meal_def bob_def alice_def)
qed

text \<open>
  C7. A creation without a cookie answers with the cookie \<open>userId\<close> holding the UUID
  just drawn, and with \<open>maxAge\<close> 604800000. \<open>Max-Age\<close> counts seconds: the cookie is
  valid for 7000 days, not for 7.
\<close>

theorem minted_cookie_max_age:
  "fst (create_meal utc fresh_world None (Some (lunch 0 True))) =
     Inr (Some \<lparr>cookie_name = ''userId'',
                cookie_value = ''11111111-1111-4111-8111-111111111111'',
                path = ''/'', maxAge = 604800000\<rparr>) \<and>
   valid_for_days \<lparr>cookie_name = ''userId'',
                   cookie_value = ''11111111-1111-4111-8111-111111111111'',
                   path = ''/'', maxAge = 604800000\<rparr> = 7000"
  by (simp add: create_meal_def createMealBodySchema_parse_def lunch_def z_string_def
      z_string_optional_def z_coerce_date_def z_boolean_def randomUUID_def fresh_world_def
      example_uuids_def valid_for_days_def seconds_per_day_def)

text \<open>
  C8, as stated, fails for an empty name: the creation succeeds and the row is stored,
  with the empty name.
\<close>

theorem create_accepts_empty_name:
  "create_meal utc fresh_world (Some bob) (Some ((lunch 0 True)\<lparr>name_in := JString []\<rparr>)) =
     (Inr None,
      fresh_world\<lparr>uuid_drawn := 1,
        meals := [\<lparr>meal_id = ''11111111-1111-4111-8111-111111111111'', user_id = bob,
                   name = [], description = None,
                   date_time = ''Thu Jan 01 1970 00:00:00 GMT+0000 (Coordinated Universal Time)'',
                   on_diet = True, created_at = ''2024-01-05 12:00:00''\<rparr>]\<rparr>)"
  by (simp add: create_meal_def createMealBodySchema_parse_def lunch_def z_string_def
      z_string_optional_def z_coerce_date_def z_boolean_def randomUUID_def fresh_world_def
      example_uuids_def epoch_text bob_def)

text \<open>
  C8, amended. When \<open>name\<close> is not a string (or is missing), or \<open>onDiet\<close> is not a
  boolean (or is missing), or \<open>dateTime\<close> is missing or does not give a valid date, the
  creation fails with a \<open>ZodError\<close> that has an issue for exactly those of the three
  keys, and the state is as it was: no row is stored, no UUID is drawn. The same holds,
  with one issue at the empty path, for a body that is not an object.
\<close>

theorem create_rejects_invalid_body:
  assumes "(\<forall>s. name_in b \<noteq> JString s) \<or> (\<forall>x. onDiet_in b \<noteq> JBoolean x) \<or>
           (\<forall>t. dateTime_in b \<noteq> NewDate (Some t))"
  shows "(\<exists>issues. create_meal env w cookie (Some b) = (Inl (ZodError issues), w) \<and>
           ((\<forall>s. name_in b \<noteq> JString s) \<longleftrightarrow> [''name''] \<in> set issues) \<and>
           ((\<forall>t. dateTime_in b \<noteq> NewDate (Some t)) \<longleftrightarrow> [''dateTime''] \<in> set issues) \<and>
           ((\<forall>x. onDiet_in b \<noteq> JBoolean x) \<longleftrightarrow> [''onDiet''] \<in> set issues)) \<and>
         create_meal env w cookie None = (Inl (ZodError [[]]), w)"
proof -
  have bad: "z_string (name_in b) = None \<or> z_string_optional (description_in b) = None \<or>
             z_coerce_date (dateTime_in b) = None \<or> z_boolean (onDiet_in b) = None"
    using assms unfolding z_string_None z_boolean_None z_coerce_date_None by blast
  let ?issues = "issue ''name'' (z_string (name_in b)) @
                 issue ''description'' (z_string_optional (description_in b)) @
                 issue ''dateTime'' (z_coerce_date (dateTime_in b)) @
                 issue ''onDiet'' (z_boolean (onDiet_in b))"
  have "create_meal env w cookie (Some b) = (Inl (ZodError ?issues), w)"
    by (simp add: create_meal_def createMealBodySchema_parse_Inl [OF bad])
  moreover have "(\<forall>s. name_in b \<noteq> JString s) \<longleftrightarrow> [''name''] \<in> set ?issues"
    by (simp add: issue_mem z_string_None)
  moreover have "(\<forall>t. dateTime_in b \<noteq> NewDate (Some t)) \<longleftrightarrow> [''dateTime''] \<in> set ?issues"
    by (simp add: issue_mem z_coerce_date_None)
  moreover have "(\<forall>x. onDiet_in b \<noteq> JBoolean x) \<longleftrightarrow> [''onDiet''] \<in> set ?issues"
    by (simp add: issue_mem z_boolean_None)
  moreover have "create_meal env w cookie None = (Inl (ZodError [[]]), w)"
    by (simp add: create_meal_def createMealBodySchema_parse_def)
  ultimately show ?thesis by blast
qed

theorem create_rejects_invalid_body_witness:
  "create_meal utc fresh_world None (Some ((lunch 0 True)\<lparr>name_in := JUndefined\<rparr>)) =
     (Inl (ZodError [[''name'']]), fresh_world) \<and>
   create_meal utc fresh_world None (Some ((lunch 0 True)\<lparr>dateTime_in := NewDate None\<rparr>)) =
     (Inl (ZodError [[''dateTime'']]), fresh_world) \<and>
   create_meal utc fresh_world None (Some ((lunch 0 True)\<lparr>onDiet_in := JUndefined\<rparr>)) =
     (Inl (ZodError [[''onDiet'']]), fresh_world)"
proof -
  have a: "(\<forall>s. name_in ((lunch 0 True)\<lparr>name_in := JUndefined\<rparr>) \<noteq> JString s) \<or>
           (\<forall>x. onDiet_in ((lunch 0 True)\<lparr>name_in := JUndefined\<rparr>) \<noteq> JBoolean x) \<or>
           (\<forall>t. dateTime_in ((lunch 0 True)\<lparr>name_in := JUndefined\<rparr>) \<noteq> NewDate (Some t))"
    by (simp add: lunch_def)
  have b: "(\<forall>s. name_in ((lunch 0 True)\<lparr>dateTime_in := NewDate None\<rparr>) \<noteq> JString s) \<or>
           (\<forall>x. onDiet_in ((lunch 0 True)\<lparr>dateTime_in := NewDate None\<rparr>) \<noteq> JBoolean x) \<or>
           (\<forall>t. dateTime_in ((lunch 0 True)\<lparr>dateTime_in := NewDate None\<rparr>) \<noteq> NewDate (Some t))"
    by (simp add: lunch_def)
  have c: "(\<forall>s. name_in ((lunch 0 True)\<lparr>onDiet_in := JUndefined\<rparr>) \<noteq> JString s) \<or>
           (\<forall>x. onDiet_in ((lunch 0 True)\<lparr>onDiet_in := JUndefined\<rparr>) \<noteq> JBoolean x) \<or>
           (\<forall>t. dateTime_in ((lunch 0 True)\<lparr>onDiet_in := JUndefined\<rparr>) \<noteq> NewDate (Some t))"
    by (simp add: lunch_def)
  show ?thesis
    using create_rejects_invalid_body [OF a, of utc fresh_world None]
      create_rejects_invalid_body [OF b, of utc fresh_world None]
      create_rejects_invalid_body [OF c, of utc fresh_world None]
    by (simp add: create_meal_def createMealBodySchema_parse_def lunch_def z_string_def
        z_string_optional_def z_coerce_date_def z_boolean_def issue_def)
qed

text \<open>
  C9, as stated, fails for an id that is not a UUID: the request names no meal of the
  caller's and its body is invalid, yet the error is the \<open>ZodError\<close> of the parameter
  schema, not \<open>Not Found\<close>.
\<close>

theorem update_malformed_id_invalid_body:
  "update_meal utc bobs_world (Some alice) ''abc''
     (Some ((lunch 0 True)\<lparr>dateTime_in := NewDate None\<rparr>)) =
     (Inl (ZodError [[''id'']]), bobs_world) \<and>
   updateMealBodySchema_parse (Some ((lunch 0 True)\<lparr>dateTime_in := NewDate None\<rparr>)) =
     Inl (ZodError [[''dateTime'']]) \<and>
   filter (where_id_user ''abc'' alice) (meals bobs_world) = [] \<and>
   Inl (ZodError [[''id'']]) \<noteq> (Inl NotFound :: error + unit)"
  using not_uuid_abc
  by (simp add: update_meal_cases NotFound_def bobs_world_def where_id_user_def bobs_meal_def
      updateMealBodySchema_parse_def lunch_def z_string_optional_def z_string_def
      z_coerce_date_optional_def z_coerce_date_def z_boolean_optional_def z_boolean_def issue_def)

text \<open>
  C9, amended. An update checks the id first, then looks for the caller's meal, then
  validates the body. An id that is not a UUID fails with the \<open>ZodError\<close> of the
  parameter schema. A UUID under which the caller owns no meal fails with \<open>Not Found\<close>,
  whatever the body. An invalid body fails with its own \<open>ZodError\<close> when the id is a
  UUID and the caller owns the meal, and only then. In each of these cases the state is as
  it was.
\<close>

theorem precheck_before_body_validation:
  "(\<not> is_uuid p \<longrightarrow> update_meal env w (Some userId) p body = (Inl (ZodError [[''id'']]), w)) \<and>
   (is_uuid p \<and> (\<forall>m\<in>set (meals w). \<not> where_id_user p userId m) \<longrightarrow>
      update_meal env w (Some userId) p body = (Inl NotFound, w)) \<and>
   (is_uuid p \<and> (\<exists>m\<in>set (meals w). where_id_user p userId m) \<and>
    updateMealBodySchema_parse body = Inl e \<longrightarrow>
      update_meal env w (Some userId) p body = (Inl e, w)) \<and>
   (fst (update_meal env w (Some userId) p body) = Inl e \<and>
    updateMealBodySchema_parse body = Inl e \<longrightarrow>
      is_uuid p \<and> (\<exists>m\<in>set (meals w). where_id_user p userId m))"
  using updateMealBodySchema_parse_Inl [of body e]
  by (auto simp: update_meal_cases NotFound_def)

theorem precheck_before_body_validation_witness:
  "update_meal utc bobs_world (Some alice) ''77777777-7777-4777-8777-777777777777''
     (Some ((lunch 0 True)\<lparr>dateTime_in := NewDate None\<rparr>)) = (Inl NotFound, bobs_world) \<and>
   update_meal utc bobs_world (Some bob) ''77777777-7777-4777-8777-777777777777''
     (Some ((lunch 0 True)\<lparr>dateTime_in := NewDate None\<rparr>)) =
     (Inl (ZodError [[''dateTime'']]), bobs_world)"
proof -
  have u: "is_uuid ''77777777-7777-4777-8777-777777777777''"
    using is_uuid_bobs_meal by (simp add: bobs_meal_def)
  have a: "\<forall>m\<in>set (meals bobs_world). \<not> where_id_user ''77777777-7777-4777-8777-777777777777'' alice m"
    by (simp add: bobs_world_def where_id_user_def bobs_meal_def bob_def alice_def)
  have b: "\<exists>m\<in>set (meals bobs_world). where_id_user ''77777777-7777-4777-8777-777777777777'' bob m"
    by (simp add: bobs_world_def where_id_user_def bobs_meal_def)
  have c: "updateMealBodySchema_parse (Some ((lunch 0 True)\<lparr>dateTime_in := NewDate None\<rparr>)) =
             Inl (ZodError [[''dateTime'']])"
    by (simp add: updateMealBodySchema_parse_def lunch_def z_string_optional_def z_string_def
        z_coerce_date_optional_def z_coerce_date_def z_boolean_optional_def z_boolean_def issue_def)
  show ?thesis
    using precheck_before_body_validation [of "''77777777-7777-4777-8777-777777777777''" utc
        bobs_world alice "Some ((lunch 0 True)\<lparr>dateTime_in := NewDate None\<rparr>)" "ZodError [[''dateTime'']]"]
      precheck_before_body_validation [of "''77777777-7777-4777-8777-777777777777''" utc
        bobs_world bob "Some ((lunch 0 True)\<lparr>dateTime_in := NewDate None\<rparr>)" "ZodError [[''dateTime'']]"]
      u a b c
    by simp
qed

text \<open>
  C10. A creation that succeeds appends one row, and the \<open>user_id\<close> of that row is the
  token the caller sent or, when it sent none, the token the reply's cookie holds; a
  creation that fails changes nothing. An update and a delete for the token \<open>t\<close> leave
  the rows whose \<open>user_id\<close> is not \<open>t\<close> as they were. For sequences: let a client
  start with no cookie or with a token, keep the cookie a creation sets, and send any
  sequence of requests. If it ends without a cookie, the table is as it was. If it ends
  with the token \<open>u\<close>, then it started without a cookie or with \<open>u\<close>, and the rows
  whose \<open>user_id\<close> is not \<open>u\<close> are the same rows in the same order as before: none
  was inserted, changed or deleted.
\<close>

theorem writes_scoped_to_caller:
  "(create_meal env w cookie body = (Inr c, w1) \<longrightarrow>
      (\<exists>row. meals w1 = meals w @ [row] \<and>
         (case c of None \<Rightarrow> cookie = Some (user_id row)
          | Some k \<Rightarrow> cookie_value k = user_id row))) \<and>
   (create_meal env w cookie body = (Inl e, w1) \<longrightarrow> w1 = w) \<and>
   filter (\<lambda>m. user_id m \<noteq> t) (meals (snd (update_meal env w (Some t) p body))) =
     filter (\<lambda>m. user_id m \<noteq> t) (meals w) \<and>
   filter (\<lambda>m. user_id m \<noteq> t) (meals (snd (delete_meal w (Some t) p))) =
     filter (\<lambda>m. user_id m \<noteq> t) (meals w) \<and>
   ((\<forall>n. is_uuid (uuid_pool w n)) \<and> jar \<noteq> Some [] \<and>
    session env rs (w, jar) = (w', jar') \<longrightarrow>
      (jar' = None \<longrightarrow> jar = None \<and> meals w' = meals w) \<and>
      (\<forall>u. jar' = Some u \<longrightarrow> (jar = None \<or> jar = Some u) \<and>
         filter (\<lambda>m. user_id m \<noteq> u) (meals w') = filter (\<lambda>m. user_id m \<noteq> u) (meals w)))"
proof -
  have created: "create_meal env w cookie body = (Inr c, w1) \<longrightarrow>
      (\<exists>row. meals w1 = meals w @ [row] \<and>
         (case c of None \<Rightarrow> cookie = Some (user_id row)
          | Some k \<Rightarrow> cookie_value k = user_id row))"
  proof
    assume "create_meal env w cookie body = (Inr c, w1)"
    from create_meal_Inr [OF this]
    show "\<exists>row. meals w1 = meals w @ [row] \<and>
         (case c of None \<Rightarrow> cookie = Some (user_id row)
          | Some k \<Rightarrow> cookie_value k = user_id row)"
      by (auto split: if_splits)
  qed
  have refused: "create_meal env w cookie body = (Inl e, w1) \<longrightarrow> w1 = w"
    using create_meal_Inl by blast
  have sequence: "(\<forall>n. is_uuid (uuid_pool w n)) \<and> jar \<noteq> Some [] \<and>
    session env rs (w, jar) = (w', jar') \<longrightarrow>
      (jar' = None \<longrightarrow> jar = None \<and> meals w' = meals w) \<and>
      (\<forall>u. jar' = Some u \<longrightarrow> (jar = None \<or> jar = Some u) \<and>
         filter (\<lambda>m. user_id m \<noteq> u) (meals w') = filter (\<lambda>m. user_id m \<noteq> u) (meals w))"
    using session_scoped [of w jar env rs w' jar'] by blast
  show ?thesis
    using created refused update_meal_scoped [of t env w p body] delete_meal_scoped [of t w p]
      sequence
    by blast
qed

theorem writes_scoped_to_caller_witness:
  "session utc busy_session (bobs_world, None) =
     (bobs_world\<lparr>uuid_drawn := 3,
        meals := [bobs_meal,
                  \<lparr>meal_id = ''33333333-3333-4333-8333-333333333333'', user_id = alice,
                    name = ''Lunch'', description = None,
                    date_time = ''Fri Jan 02 1970 00:00:00 GMT+0000 (Coordinated Universal Time)'',
                    on_diet = False, created_at = ''2024-01-05 12:00:00''\<rparr>]\<rparr>,
      Some alice) \<and>
   filter (\<lambda>m. user_id m \<noteq> alice)
     (meals (bobs_world\<lparr>uuid_drawn := 3,
        meals := [bobs_meal,
                  \<lparr>meal_id = ''33333333-3333-4333-8333-333333333333'', user_id = alice,
                    name = ''Lunch'', description = None,
                    date_time = ''Fri Jan 02 1970 00:00:00 GMT+0000 (Coordinated Universal Time)'',
                    on_diet = False, created_at = ''2024-01-05 12:00:00''\<rparr>]\<rparr>)) =
   [bobs_meal]"
proof -
  have pool: "\<forall>n. is_uuid (uuid_pool bobs_world n)"
    by (simp add: bobs_world_def fresh_world_def example_uuids_wellformed)
  have jar: "(None :: string option) \<noteq> Some []" by simp
  note scoped = writes_scoped_to_caller [where w = bobs_world and jar = None and env = utc
      and rs = busy_session and jar' = "Some alice",
      THEN conjunct2, THEN conjunct2, THEN conjunct2, THEN conjunct2, rule_format,
      OF conjI [OF pool conjI [OF jar busy_session_result]]]
  show ?thesis
    using scoped busy_session_result
    by (simp add: bobs_world_def bobs_meal_def bob_def alice_def)
qed

end
